theory Spec2Isabelle
  imports Main "HOL-Library.Word" "HOL-Library.Char_ord" "HOL-Library.List_Lexorder"
begin

section \<open>Kubernetes objects and errors\<close>

text \<open>
  A Go \<open>error\<close> returned by the object store is a status error with a reason
  (\<open>errors.IsNotFound\<close> and \<open>errors.IsConflict\<close> test it); an error made by
  \<open>fmt.Errorf\<close> carries only its message.
\<close>

datatype err =
    StatusNotFound string
  | StatusConflict string
  | StatusOther string
  | Errorf string

fun IsNotFound :: "err \<Rightarrow> bool" where
  "IsNotFound (StatusNotFound m) = True"
| "IsNotFound e = False"

fun IsConflict :: "err \<Rightarrow> bool" where
  "IsConflict (StatusConflict m) = True"
| "IsConflict e = False"

text \<open>The text of an error, as \<open>%v\<close> prints it.\<close>

fun Error :: "err \<Rightarrow> string" where
  "Error (StatusNotFound m) = m"
| "Error (StatusConflict m) = m"
| "Error (StatusOther m) = m"
| "Error (Errorf m) = m"

datatype OwnerReference =
  OwnerReference (ref_APIVersion: string) (ref_Kind: string) (ref_Name: string)

text \<open>
  \<open>metav1.TypeMeta\<close> and \<open>metav1.ObjectMeta\<close> are embedded in every object; the
  records below extend this one, as the Go structs embed it. A Go
  \<open>map[string]string\<close> of labels is an association list.
\<close>

record ObjectMeta =
  APIVersion :: string
  Kind :: string
  Name :: string
  Namespace :: string
  Labels :: "(string \<times> string) list"
  OwnerReferences :: "OwnerReference list"

datatype ConditionStatus = ConditionTrue | ConditionFalse | ConditionUnknown

record Condition =
  cStatus :: ConditionStatus
  Reason :: string
  Message :: string

text \<open>
  Modelled from the spec: the type \<open>KafkaChannelStatus\<close> is declared in package
  \<open>v1beta1\<close>, outside the sources at hand. The spec gives a status as a small set of
  named leaf conditions, each holding a state, a reason and a message. The source
  marks three leaves: Service, Endpoints (which stands for the deployment in the
  secret reconciler) and Dispatcher.
\<close>

record KafkaChannelStatus =
  ServiceCondition :: Condition
  EndpointsCondition :: Condition
  DispatcherCondition :: Condition

record KafkaChannel = ObjectMeta +
  Status :: KafkaChannelStatus

record ServicePort =
  PortName :: string
  Port :: "32 word"
  TargetPort :: "32 word"

record Service = ObjectMeta +
  Ports :: "ServicePort list"
  Selector :: "(string \<times> string) list"

datatype EnvVarKey =
    NamespaceEnvKey
  | PodNameEnvVarKey
  | ContainerNameEnvVarKEy
  | KnativeLoggingConfigMapNameEnvVarKey
  | MetricsPortEnvVarKey
  | MetricsDomainEnvVarKey
  | HealthPortEnvVarKey
  | ChannelKeyEnvVarKey
  | ServiceNameEnvVarKey
  | KafkaTopicEnvVarKey
  | KafkaBrokerEnvVarKey
  | KafkaUsernameEnvVarKey
  | KafkaPasswordEnvVarKey

datatype SecretDataKey =
    KafkaSecretDataKeyBrokers
  | KafkaSecretDataKeyUsername
  | KafkaSecretDataKeyPassword

text \<open>
  An environment variable has a literal \<open>Value\<close> or a \<open>ValueFrom\<close> source, which
  is a field reference or a reference to a key of a named secret.
\<close>

datatype EnvVarSource =
    Value string
  | FieldRef string
  | SecretKeyRef string SecretDataKey

record EnvVar =
  EnvName :: EnvVarKey
  EnvSource :: EnvVarSource

record Probe =
  HTTPGetPort :: "32 word"
  HTTPGetPath :: string
  InitialDelaySeconds :: int
  PeriodSeconds :: int

record Container =
  ContainerName :: string
  LivenessProbe :: Probe
  ReadinessProbe :: Probe
  Image :: string
  Env :: "EnvVar list"
  ImagePullPolicy :: string
  Limits :: "(string \<times> string) list"
  Requests :: "(string \<times> string) list"

record DeploymentStatus =
  StatusReplicas :: int
  ReadyReplicas :: int
  AvailableReplicas :: int
  UnavailableReplicas :: int

record Deployment = ObjectMeta +
  Replicas :: "32 word"
  MatchLabels :: "(string \<times> string) list"
  TemplateLabels :: "(string \<times> string) list"
  ServiceAccountName :: string
  Containers :: "Container list"
  DStatus :: DeploymentStatus

section \<open>Label selectors\<close>

text \<open>
  Package \<open>labels\<close> of the Kubernetes library. A selector is a list of
  requirements; \<open>NewSelector\<close> is the empty one, which every label set matches.
  \<open>Add\<close> copies its receiver and returns the extended copy: the receiver is left
  as it was.
\<close>

datatype Operator = DoesNotExist | Equals | DoubleEquals | In | NotEquals | NotIn | Exists

record Requirement =
  key :: string
  operator :: Operator
  strValues :: "string list"

type_synonym Selector = "Requirement list"

definition NewSelector :: Selector where
  "NewSelector = []"

definition Add :: "Selector \<Rightarrow> Requirement list \<Rightarrow> Selector" where
  "Add lsel reqs = sort_key key (lsel @ reqs)"

fun RequirementMatches :: "Requirement \<Rightarrow> (string \<times> string) list \<Rightarrow> bool" where
  "RequirementMatches rq ls =
     (case operator rq of
        DoesNotExist \<Rightarrow> map_of ls (key rq) = None
      | Exists \<Rightarrow> map_of ls (key rq) \<noteq> None
      | NotEquals \<Rightarrow> (case map_of ls (key rq) of None \<Rightarrow> True | Some v \<Rightarrow> v \<notin> set (strValues rq))
      | NotIn \<Rightarrow> (case map_of ls (key rq) of None \<Rightarrow> True | Some v \<Rightarrow> v \<notin> set (strValues rq))
      | _ \<Rightarrow> (case map_of ls (key rq) of None \<Rightarrow> False | Some v \<Rightarrow> v \<in> set (strValues rq)))"

definition Matches :: "Selector \<Rightarrow> (string \<times> string) list \<Rightarrow> bool" where
  "Matches lsel ls = list_all (\<lambda>rq. RequirementMatches rq ls) lsel"

section \<open>Declarations outside the sources at hand\<close>

text \<open>
  The code refers to constants and helpers of packages whose sources are not at
  hand (\<open>constants\<close>, \<open>commonconstants\<close>, \<open>health\<close>, \<open>logging\<close>, \<open>util\<close>, the
  validation of \<open>labels.NewRequirement\<close>, and \<open>PropagateDispatcherStatus\<close> of the
  channel status). They are taken as parameters: every function below receives
  them as the record \<open>k\<close>, and every theorem holds for all their values.
\<close>

record decls =
  KnativeEventingNamespace :: string
  KafkaSecretLabel :: string
  ServiceKind :: string
  DeploymentKind :: string
  CoreV1GroupVersion :: string
  AppsV1GroupVersion :: string
  AppLabel :: string
  KafkaChannelDispatcherLabel :: string
  KafkaChannelNameLabel :: string
  KafkaChannelNamespaceLabel :: string
  K8sAppDispatcherSelectorLabel :: string
  K8sAppDispatcherSelectorValue :: string
  MetricsPortName :: string
  HealthPort :: int
  LivenessPath :: string
  ReadinessPath :: string
  DispatcherLivenessDelay :: int
  DispatcherLivenessPeriod :: int
  DispatcherReadinessDelay :: int
  DispatcherReadinessPeriod :: int
  DispatcherContainerName :: string
  ConfigMapName :: string
  DispatcherDnsSafeName :: "KafkaChannel \<Rightarrow> string"
  TopicName :: "KafkaChannel \<Rightarrow> string"
  ChannelKey :: "KafkaChannel \<Rightarrow> string"
  NewChannelOwnerReference :: "KafkaChannel \<Rightarrow> OwnerReference"
  RequirementInvalid :: "string \<Rightarrow> Operator \<Rightarrow> string list \<Rightarrow> err option"
  PropagateDispatcherStatus :: "KafkaChannelStatus \<Rightarrow> DeploymentStatus \<Rightarrow> KafkaChannelStatus"

text \<open>
  \<open>labels.NewRequirement\<close> validates the key and the values and then returns the
  requirement made of its arguments.
\<close>

definition NewRequirement ::
  "decls \<Rightarrow> string \<Rightarrow> Operator \<Rightarrow> string list \<Rightarrow> err + Requirement" where
  "NewRequirement k ky op vals =
     (case RequirementInvalid k ky op vals of
        Some e \<Rightarrow> Inl e
      | None \<Rightarrow> Inr \<lparr>key = ky, operator = op, strValues = vals\<rparr>)"

section \<open>Channel status\<close>

text \<open>
  Modelled from the spec: the methods of \<open>KafkaChannelStatus\<close> are declared in
  package \<open>v1beta1\<close>, outside the sources at hand. By the spec, marking a leaf
  stores its state (True, False for a failure, Unknown) with the reason and the
  message given.
\<close>

definition MarkServiceTrue :: "KafkaChannelStatus \<Rightarrow> KafkaChannelStatus" where
  "MarkServiceTrue cs =
     cs\<lparr>ServiceCondition := \<lparr>cStatus = ConditionTrue, Reason = [], Message = []\<rparr>\<rparr>"

definition MarkServiceFailed :: "string \<Rightarrow> string \<Rightarrow> KafkaChannelStatus \<Rightarrow> KafkaChannelStatus" where
  "MarkServiceFailed reason message cs =
     cs\<lparr>ServiceCondition := \<lparr>cStatus = ConditionFalse, Reason = reason, Message = message\<rparr>\<rparr>"

definition MarkEndpointsTrue :: "KafkaChannelStatus \<Rightarrow> KafkaChannelStatus" where
  "MarkEndpointsTrue cs =
     cs\<lparr>EndpointsCondition := \<lparr>cStatus = ConditionTrue, Reason = [], Message = []\<rparr>\<rparr>"

definition MarkEndpointsFailed :: "string \<Rightarrow> string \<Rightarrow> KafkaChannelStatus \<Rightarrow> KafkaChannelStatus" where
  "MarkEndpointsFailed reason message cs =
     cs\<lparr>EndpointsCondition := \<lparr>cStatus = ConditionFalse, Reason = reason, Message = message\<rparr>\<rparr>"

definition MarkDispatcherFailed :: "string \<Rightarrow> string \<Rightarrow> KafkaChannelStatus \<Rightarrow> KafkaChannelStatus" where
  "MarkDispatcherFailed reason message cs =
     cs\<lparr>DispatcherCondition := \<lparr>cStatus = ConditionFalse, Reason = reason, Message = message\<rparr>\<rparr>"

definition MarkDispatcherUnknown :: "string \<Rightarrow> string \<Rightarrow> KafkaChannelStatus \<Rightarrow> KafkaChannelStatus" where
  "MarkDispatcherUnknown reason message cs =
     cs\<lparr>DispatcherCondition := \<lparr>cStatus = ConditionUnknown, Reason = reason, Message = message\<rparr>\<rparr>"

section \<open>The object store and the trace of calls\<close>

text \<open>
  The listers, the clients and the event recorder are collaborators. Every call
  the code issues to one of them is appended to a trace, and the collaborator's
  answer is a function of the trace so far and of the call's arguments, so that a
  store may answer the same call differently over time.
  \<open>Call_updateKafkaChannelStatus\<close> records that the fan-out loop calls
  \<open>updateKafkaChannelStatus\<close> for a channel; it is not a call to the store.
\<close>

datatype EventReason =
    DispatcherServiceReconciliationFailed
  | DispatcherDeploymentReconciliationFailed

text \<open>Modelled from the spec: the reasons are a closed enumeration, printed by name.\<close>

fun String :: "EventReason \<Rightarrow> string" where
  "String DispatcherServiceReconciliationFailed = ''DispatcherServiceReconciliationFailed''"
| "String DispatcherDeploymentReconciliationFailed = ''DispatcherDeploymentReconciliationFailed''"

datatype action =
    List_KafkaChannels Selector
  | Get_KafkaChannel string string
  | UpdateStatus string KafkaChannel
  | Call_updateKafkaChannelStatus KafkaChannel
  | Get_Service string string
  | Create_Service string Service
  | Get_Deployment string string
  | Create_Deployment string Deployment
  | Eventf KafkaChannel string string string

type_synonym trace = "action list"

section \<open>Secret reconciler: status of the channels of a secret\<close>

text \<open>
  A Go function either returns (an error or \<open>nil\<close>) or panics, as on the
  dereference of a \<open>nil\<close> pointer.
\<close>

datatype outcome = Returned "err option" | Panicked

record Secret = ObjectMeta +
  Data :: "(string \<times> string) list"

text \<open>
  The collaborators of the secret reconciler. \<open>List\<close> returns pointers, so an
  entry may be \<open>nil\<close> (\<open>None\<close>); \<open>Get\<close> returns a channel or an error (with a
  \<open>nil\<close> pointer); \<open>UpdateStatus\<close> returns an error or \<open>nil\<close>, the object it also
  returns being dropped by the code.
\<close>

record kafkasecret_Reconciler =
  kafkachannelLister_List :: "trace \<Rightarrow> Selector \<Rightarrow> err + KafkaChannel option list"
  kafkachannelLister_Get :: "trace \<Rightarrow> string \<Rightarrow> string \<Rightarrow> err + KafkaChannel"
  kafkaChannelClient_UpdateStatus :: "trace \<Rightarrow> string \<Rightarrow> KafkaChannel \<Rightarrow> err option"

text \<open>
  The six parameters \<open>serviceValid\<close>, ..., \<open>deploymentMessage\<close> that both
  functions of the secret reconciler pass along unchanged.
\<close>

record StatusArgs =
  serviceValid :: bool
  serviceReason :: string
  serviceMessage :: string
  deploymentValid :: bool
  deploymentReason :: string
  deploymentMessage :: string

text \<open>Lines 109 to 127: the marks put on the copy of the channel.\<close>

definition markStatus :: "StatusArgs \<Rightarrow> KafkaChannelStatus \<Rightarrow> KafkaChannelStatus" where
  "markStatus p cs =
     (let cs1 = (if serviceValid p then MarkServiceTrue cs
                 else MarkServiceFailed (serviceReason p) (serviceMessage p) cs)
      in if deploymentValid p then MarkEndpointsTrue cs1
         else MarkEndpointsFailed (deploymentReason p) (deploymentMessage p) cs1)"

text \<open>Lines 106 to 127: the deep copy of the channel, with the marks on its status.\<close>

definition markedCopy :: "StatusArgs \<Rightarrow> KafkaChannel \<Rightarrow> KafkaChannel" where
  "markedCopy p originalChannel = originalChannel\<lparr>Status := markStatus p (Status originalChannel)\<rparr>"

text \<open>
  Lines 106 to 147: the rest of the closure once \<open>originalChannel\<close> is known.
  \<open>equality.Semantic.DeepEqual\<close> on the two statuses is equality of the records.
  The closure's state is the captured variable \<open>originalChannel\<close> and the trace.
\<close>

definition updateFromCopy ::
  "kafkasecret_Reconciler \<Rightarrow> StatusArgs \<Rightarrow> KafkaChannel \<Rightarrow> trace
     \<Rightarrow> outcome \<times> KafkaChannel option \<times> trace" where
  "updateFromCopy r p originalChannel tr =
     (let updatedChannel = markedCopy p originalChannel
      in if Status originalChannel \<noteq> Status updatedChannel
         then (case kafkaChannelClient_UpdateStatus r tr (Namespace updatedChannel) updatedChannel of
                 Some e \<Rightarrow> (Returned (Some e), Some originalChannel,
                            tr @ [UpdateStatus (Namespace updatedChannel) updatedChannel])
               | None \<Rightarrow> (Returned None, Some originalChannel,
                          tr @ [UpdateStatus (Namespace updatedChannel) updatedChannel]))
         else (Returned None, Some originalChannel, tr))"

text \<open>
  Lines 93 to 148: the closure given to \<open>RetryUpdateConflicts\<close>. After the first
  attempt it reloads \<open>originalChannel\<close> through the lister; a failed reload leaves
  the variable \<open>nil\<close>, and reading a field of a \<open>nil\<close> channel panics.
\<close>

definition updateAttempt ::
  "kafkasecret_Reconciler \<Rightarrow> StatusArgs \<Rightarrow> nat \<Rightarrow> KafkaChannel option \<times> trace
     \<Rightarrow> outcome \<times> KafkaChannel option \<times> trace" where
  "updateAttempt r p attempts s =
     (case s of (originalChannel, tr) \<Rightarrow>
       (case originalChannel of
          None \<Rightarrow> (Panicked, None, tr)
        | Some oc \<Rightarrow>
            if attempts > 0
            then (case kafkachannelLister_Get r tr (Namespace oc) (Name oc) of
                    Inl e \<Rightarrow> (Returned (Some e), None, tr @ [Get_KafkaChannel (Namespace oc) (Name oc)])
                  | Inr fresh \<Rightarrow>
                      updateFromCopy r p fresh (tr @ [Get_KafkaChannel (Namespace oc) (Name oc)]))
            else updateFromCopy r p oc tr))"

text \<open>
  \<open>reconciler.RetryUpdateConflicts\<close> of the Knative library: it runs the updater
  with the number of earlier attempts, again after each conflict error, for at
  most the steps of \<open>retry.DefaultRetry\<close>; after the last step it returns the last
  conflict error.
\<close>

definition DefaultRetrySteps :: nat where
  "DefaultRetrySteps = 5"

fun RetryErrors ::
  "nat \<Rightarrow> (nat \<Rightarrow> 's \<Rightarrow> outcome \<times> 's) \<Rightarrow> nat \<Rightarrow> err option \<Rightarrow> 's \<Rightarrow> outcome \<times> 's" where
  "RetryErrors 0 updater attempts lastErr s = (Returned lastErr, s)"
| "RetryErrors (Suc steps) updater attempts lastErr s =
     (case updater attempts s of
        (Panicked, s') \<Rightarrow> (Panicked, s')
      | (Returned None, s') \<Rightarrow> (Returned None, s')
      | (Returned (Some e), s') \<Rightarrow>
          if IsConflict e then RetryErrors steps updater (attempts + 1) (Some e) s'
          else (Returned (Some e), s'))"

definition RetryUpdateConflicts :: "(nat \<Rightarrow> 's \<Rightarrow> outcome \<times> 's) \<Rightarrow> 's \<Rightarrow> outcome \<times> 's" where
  "RetryUpdateConflicts updater s = RetryErrors DefaultRetrySteps updater 0 None s"

text \<open>Lines 85 to 149.\<close>

definition updateKafkaChannelStatus ::
  "kafkasecret_Reconciler \<Rightarrow> KafkaChannel \<Rightarrow> StatusArgs \<Rightarrow> trace \<Rightarrow> outcome \<times> trace" where
  "updateKafkaChannelStatus r originalChannel p tr =
     (case RetryUpdateConflicts (updateAttempt r p) (Some originalChannel, tr) of
        (out, oc, tr') \<Rightarrow> (out, tr'))"

text \<open>
  Lines 65 to 74: the loop over the listed channels. It carries the flag
  \<open>statusUpdateErrors\<close>; a panic ends it (\<open>None\<close>).
\<close>

fun updateAllKafkaChannels ::
  "kafkasecret_Reconciler \<Rightarrow> StatusArgs \<Rightarrow> KafkaChannel option list \<Rightarrow> bool \<Rightarrow> trace
     \<Rightarrow> bool option \<times> trace" where
  "updateAllKafkaChannels r p [] statusUpdateErrors tr = (Some statusUpdateErrors, tr)"
| "updateAllKafkaChannels r p (None # rest) statusUpdateErrors tr =
     updateAllKafkaChannels r p rest statusUpdateErrors tr"
| "updateAllKafkaChannels r p (Some kafkaChannel # rest) statusUpdateErrors tr =
     (case updateKafkaChannelStatus r kafkaChannel p
             (tr @ [Call_updateKafkaChannelStatus kafkaChannel]) of
        (Panicked, tr') \<Rightarrow> (None, tr')
      | (Returned None, tr') \<Rightarrow> updateAllKafkaChannels r p rest statusUpdateErrors tr'
      | (Returned (Some e), tr') \<Rightarrow> updateAllKafkaChannels r p rest True tr')"

text \<open>
  Lines 40 to 82. Line 55 calls \<open>selector.Add\<close> and drops what it returns, so the
  selector given to \<open>List\<close> is still the one \<open>NewSelector\<close> made.
\<close>

definition reconcileKafkaChannelStatus ::
  "decls \<Rightarrow> kafkasecret_Reconciler \<Rightarrow> Secret \<Rightarrow> StatusArgs \<Rightarrow> trace \<Rightarrow> outcome \<times> trace" where
  "reconcileKafkaChannelStatus k r secret p tr =
     (let selector = NewSelector
      in case NewRequirement k (KafkaSecretLabel k) Equals [Name secret] of
           Inl e \<Rightarrow> (Returned (Some e), tr)
         | Inr requirement \<Rightarrow>
             (let dropped = Add selector [requirement]
              in case kafkachannelLister_List r tr selector of
                   Inl e \<Rightarrow> (Returned (Some e), tr @ [List_KafkaChannels selector])
                 | Inr kafkaChannels \<Rightarrow>
                     (case updateAllKafkaChannels r p kafkaChannels False
                             (tr @ [List_KafkaChannels selector]) of
                        (None, tr') \<Rightarrow> (Panicked, tr')
                      | (Some statusUpdateErrors, tr') \<Rightarrow>
                          if statusUpdateErrors
                          then (Returned (Some (Errorf ''failed to update Status of one or more KafkaChannels'')), tr')
                          else (Returned None, tr'))))"

text \<open>
  Modelled from the spec: the lister is generated code outside the sources at
  hand. By the spec the store's list verb supports label-selector filtering over
  all namespaces, and get finds an object by namespace and name. This lister
  serves a fixed cache.
\<close>

definition cacheLister_List :: "KafkaChannel list \<Rightarrow> trace \<Rightarrow> Selector \<Rightarrow> err + KafkaChannel option list" where
  "cacheLister_List cache tr lsel = Inr (map Some (filter (\<lambda>c. Matches lsel (Labels c)) cache))"

definition cacheLister_Get :: "KafkaChannel list \<Rightarrow> trace \<Rightarrow> string \<Rightarrow> string \<Rightarrow> err + KafkaChannel" where
  "cacheLister_Get cache tr ns nm =
     (case find (\<lambda>c. Namespace c = ns \<and> Name c = nm) cache of
        None \<Rightarrow> Inl (StatusNotFound nm)
      | Some c \<Rightarrow> Inr c)"

section \<open>Channel reconciler: the dispatcher of a channel\<close>

text \<open>
  Go's \<open>int\<close> is a 64-bit word; \<open>int32(x)\<close> keeps its low 32 bits and
  \<open>strconv.Itoa\<close> prints its signed value in decimal.
\<close>

function utoa :: "nat \<Rightarrow> string" where
  "utoa n = (if n < 10 then [char_of (48 + n)]
             else utoa (n div 10) @ [char_of (48 + n mod 10)])"
  by pat_completeness auto
termination
  by (relation "measure (\<lambda>n. n)") auto

declare utoa.simps [simp del]

definition Itoa :: "int \<Rightarrow> string" where
  "Itoa i = (if i < 0 then CHR ''-'' # utoa (nat (- i)) else utoa (nat i))"

record Environment =
  ServiceAccount :: string
  MetricsPort :: "64 word"
  MetricsDomain :: string
  DispatcherImage :: string

record DispatcherConfig =
  ConfigReplicas :: "64 word"
  MemoryLimit :: string
  CpuLimit :: string
  MemoryRequest :: string
  CpuRequest :: string

text \<open>
  The collaborators of the channel reconciler: the two listers, the two create
  verbs of the Kubernetes client, the admin client's secret-name resolution, and
  the environment and the dispatcher part of the configuration.
\<close>

record kafkachannel_Reconciler =
  serviceLister_Get :: "trace \<Rightarrow> string \<Rightarrow> string \<Rightarrow> err + Service"
  deploymentLister_Get :: "trace \<Rightarrow> string \<Rightarrow> string \<Rightarrow> err + Deployment"
  kubeClientset_Services_Create :: "trace \<Rightarrow> string \<Rightarrow> Service \<Rightarrow> err + Service"
  kubeClientset_Deployments_Create :: "trace \<Rightarrow> string \<Rightarrow> Deployment \<Rightarrow> err + Deployment"
  adminClient_GetKafkaSecretName :: "string \<Rightarrow> string"
  environment :: Environment
  config_Dispatcher :: DispatcherConfig

text \<open>Lines 259 to 269.\<close>

definition getDispatcherService ::
  "decls \<Rightarrow> kafkachannel_Reconciler \<Rightarrow> KafkaChannel \<Rightarrow> trace \<Rightarrow> (err + Service) \<times> trace" where
  "getDispatcherService k r channel tr =
     (let serviceName = DispatcherDnsSafeName k channel
      in (serviceLister_Get r tr (KnativeEventingNamespace k) serviceName,
          tr @ [Get_Service (KnativeEventingNamespace k) serviceName]))"

text \<open>Lines 272 to 309.\<close>

definition newDispatcherService :: "decls \<Rightarrow> kafkachannel_Reconciler \<Rightarrow> KafkaChannel \<Rightarrow> Service" where
  "newDispatcherService k r channel =
     (let serviceName = DispatcherDnsSafeName k channel
      in \<lparr>APIVersion = CoreV1GroupVersion k,
          Kind = ServiceKind k,
          Name = serviceName,
          Namespace = KnativeEventingNamespace k,
          Labels = [(KafkaChannelDispatcherLabel k, ''true''),
                    (KafkaChannelNameLabel k, Name channel),
                    (KafkaChannelNamespaceLabel k, Namespace channel),
                    (K8sAppDispatcherSelectorLabel k, K8sAppDispatcherSelectorValue k)],
          OwnerReferences = [NewChannelOwnerReference k channel],
          Ports = [\<lparr>PortName = MetricsPortName k,
                    Port = ucast (MetricsPort (environment r)),
                    TargetPort = ucast (MetricsPort (environment r))\<rparr>],
          Selector = [(AppLabel k, serviceName)]\<rparr>)"

text \<open>
  Lines 230 to 256. The function receives the channel by pointer; it is returned
  here as the function leaves it.
\<close>

definition reconcileDispatcherService ::
  "decls \<Rightarrow> kafkachannel_Reconciler \<Rightarrow> KafkaChannel \<Rightarrow> trace
     \<Rightarrow> err option \<times> KafkaChannel \<times> trace" where
  "reconcileDispatcherService k r channel tr =
     (case getDispatcherService k r channel tr of
        (Inl e, tr1) \<Rightarrow>
          if IsNotFound e
          then (let service = newDispatcherService k r channel
                in case kubeClientset_Services_Create r tr1 (Namespace service) service of
                     Inl e' \<Rightarrow> (Some e', channel, tr1 @ [Create_Service (Namespace service) service])
                   | Inr created \<Rightarrow> (None, channel, tr1 @ [Create_Service (Namespace service) service]))
          else (Some e, channel, tr1)
      | (Inr service, tr1) \<Rightarrow> (None, channel, tr1))"

text \<open>Lines 359 to 369.\<close>

definition getDispatcherDeployment ::
  "decls \<Rightarrow> kafkachannel_Reconciler \<Rightarrow> KafkaChannel \<Rightarrow> trace \<Rightarrow> (err + Deployment) \<times> trace" where
  "getDispatcherDeployment k r channel tr =
     (let deploymentName = DispatcherDnsSafeName k channel
      in (deploymentLister_Get r tr (KnativeEventingNamespace k) deploymentName,
          tr @ [Get_Deployment (KnativeEventingNamespace k) deploymentName]))"

text \<open>
  Lines 469 to 569. The result \<open>(nil, err)\<close> is \<open>Inl err\<close>; the quote character of
  the message is written by its code.
\<close>

definition dispatcherDeploymentEnvVars ::
  "decls \<Rightarrow> kafkachannel_Reconciler \<Rightarrow> KafkaChannel \<Rightarrow> err + EnvVar list" where
  "dispatcherDeploymentEnvVars k r channel =
     (let topicName = TopicName k channel;
          envVars =
            [\<lparr>EnvName = NamespaceEnvKey, EnvSource = Value (KnativeEventingNamespace k)\<rparr>,
             \<lparr>EnvName = PodNameEnvVarKey, EnvSource = FieldRef ''metadata.name''\<rparr>,
             \<lparr>EnvName = ContainerNameEnvVarKEy, EnvSource = Value (DispatcherContainerName k)\<rparr>,
             \<lparr>EnvName = KnativeLoggingConfigMapNameEnvVarKey, EnvSource = Value (ConfigMapName k)\<rparr>,
             \<lparr>EnvName = MetricsPortEnvVarKey,
              EnvSource = Value (Itoa (sint (MetricsPort (environment r))))\<rparr>,
             \<lparr>EnvName = MetricsDomainEnvVarKey, EnvSource = Value (MetricsDomain (environment r))\<rparr>,
             \<lparr>EnvName = HealthPortEnvVarKey, EnvSource = Value (Itoa (HealthPort k))\<rparr>,
             \<lparr>EnvName = ChannelKeyEnvVarKey, EnvSource = Value (ChannelKey k channel)\<rparr>,
             \<lparr>EnvName = ServiceNameEnvVarKey, EnvSource = Value (DispatcherDnsSafeName k channel)\<rparr>,
             \<lparr>EnvName = KafkaTopicEnvVarKey, EnvSource = Value topicName\<rparr>];
          kafkaSecret = adminClient_GetKafkaSecretName r topicName
      in if length kafkaSecret \<le> 0
         then Inl (Errorf (''invalid kafkaSecret for topic '' @ [char_of (39::nat)] @ topicName
                           @ [char_of (39::nat)]))
         else Inr (envVars
                   @ [\<lparr>EnvName = KafkaBrokerEnvVarKey,
                       EnvSource = SecretKeyRef kafkaSecret KafkaSecretDataKeyBrokers\<rparr>]
                   @ [\<lparr>EnvName = KafkaUsernameEnvVarKey,
                       EnvSource = SecretKeyRef kafkaSecret KafkaSecretDataKeyUsername\<rparr>]
                   @ [\<lparr>EnvName = KafkaPasswordEnvVarKey,
                       EnvSource = SecretKeyRef kafkaSecret KafkaSecretDataKeyPassword\<rparr>]))"

text \<open>
  Lines 372 to 466. A deployment that has just been built has the zero status.
\<close>

definition newDispatcherDeployment ::
  "decls \<Rightarrow> kafkachannel_Reconciler \<Rightarrow> KafkaChannel \<Rightarrow> err + Deployment" where
  "newDispatcherDeployment k r channel =
     (let deploymentName = DispatcherDnsSafeName k channel;
          replicas = (ucast (ConfigReplicas (config_Dispatcher r)) :: 32 word)
      in case dispatcherDeploymentEnvVars k r channel of
           Inl e \<Rightarrow> Inl e
         | Inr envVars \<Rightarrow>
             Inr \<lparr>APIVersion = AppsV1GroupVersion k,
                  Kind = DeploymentKind k,
                  Name = deploymentName,
                  Namespace = KnativeEventingNamespace k,
                  Labels = [(AppLabel k, deploymentName),
                            (KafkaChannelDispatcherLabel k, ''true''),
                            (KafkaChannelNameLabel k, Name channel),
                            (KafkaChannelNamespaceLabel k, Namespace channel)],
                  OwnerReferences = [NewChannelOwnerReference k channel],
                  Replicas = replicas,
                  MatchLabels = [(AppLabel k, deploymentName)],
                  TemplateLabels = [(AppLabel k, deploymentName)],
                  ServiceAccountName = ServiceAccount (environment r),
                  Containers =
                    [\<lparr>ContainerName = deploymentName,
                      LivenessProbe = \<lparr>HTTPGetPort = word_of_int (HealthPort k),
                                        HTTPGetPath = LivenessPath k,
                                        InitialDelaySeconds = DispatcherLivenessDelay k,
                                        PeriodSeconds = DispatcherLivenessPeriod k\<rparr>,
                      ReadinessProbe = \<lparr>HTTPGetPort = word_of_int (HealthPort k),
                                         HTTPGetPath = ReadinessPath k,
                                         InitialDelaySeconds = DispatcherReadinessDelay k,
                                         PeriodSeconds = DispatcherReadinessPeriod k\<rparr>,
                      Image = DispatcherImage (environment r),
                      Env = envVars,
                      ImagePullPolicy = ''IfNotPresent'',
                      Limits = [(''memory'', MemoryLimit (config_Dispatcher r)),
                                (''cpu'', CpuLimit (config_Dispatcher r))],
                      Requests = [(''memory'', MemoryRequest (config_Dispatcher r)),
                                  (''cpu'', CpuRequest (config_Dispatcher r))]\<rparr>],
                  DStatus = \<lparr>StatusReplicas = 0, ReadyReplicas = 0,
                             AvailableReplicas = 0, UnavailableReplicas = 0\<rparr>\<rparr>)"

text \<open>Lines 316 to 356. The channel's status is changed in place; the changed channel is returned.\<close>

definition reconcileDispatcherDeployment ::
  "decls \<Rightarrow> kafkachannel_Reconciler \<Rightarrow> KafkaChannel \<Rightarrow> trace
     \<Rightarrow> err option \<times> KafkaChannel \<times> trace" where
  "reconcileDispatcherDeployment k r channel tr =
     (case getDispatcherDeployment k r channel tr of
        (Inl e, tr1) \<Rightarrow>
          if IsNotFound e
          then (case newDispatcherDeployment k r channel of
                  Inl e' \<Rightarrow>
                    (Some e',
                     channel\<lparr>Status := MarkDispatcherFailed
                        (String DispatcherDeploymentReconciliationFailed)
                        (''Failed To Generate Dispatcher Deployment: '' @ Error e')
                        (Status channel)\<rparr>,
                     tr1)
                | Inr deployment \<Rightarrow>
                    (case kubeClientset_Deployments_Create r tr1 (Namespace deployment) deployment of
                       Inl e' \<Rightarrow>
                         (Some e',
                          channel\<lparr>Status := MarkDispatcherFailed
                             (String DispatcherDeploymentReconciliationFailed)
                             (''Failed To Create Dispatcher Deployment: '' @ Error e')
                             (Status channel)\<rparr>,
                          tr1 @ [Create_Deployment (Namespace deployment) deployment])
                     | Inr created \<Rightarrow>
                         (None,
                          channel\<lparr>Status := PropagateDispatcherStatus k (Status channel) (DStatus created)\<rparr>,
                          tr1 @ [Create_Deployment (Namespace deployment) deployment])))
          else (Some e,
                channel\<lparr>Status := MarkDispatcherUnknown
                   (String DispatcherDeploymentReconciliationFailed)
                   (''Failed To Get Dispatcher Deployment: '' @ Error e)
                   (Status channel)\<rparr>,
                tr1)
      | (Inr deployment, tr1) \<Rightarrow>
          (None,
           channel\<lparr>Status := PropagateDispatcherStatus k (Status channel) (DStatus deployment)\<rparr>,
           tr1))"

text \<open>
  Lines 194 to 223. Each failure is reported to the event recorder as a warning
  about the channel.
\<close>

definition reconcileDispatcher ::
  "decls \<Rightarrow> kafkachannel_Reconciler \<Rightarrow> KafkaChannel \<Rightarrow> trace
     \<Rightarrow> err option \<times> KafkaChannel \<times> trace" where
  "reconcileDispatcher k r channel tr =
     (case reconcileDispatcherService k r channel tr of
        (serviceErr, channel1, tr1) \<Rightarrow>
          (let tr2 = (case serviceErr of
                        Some e \<Rightarrow> tr1 @ [Eventf channel1 ''Warning''
                                           (String DispatcherServiceReconciliationFailed)
                                           (''Failed To Reconcile Dispatcher Service: '' @ Error e)]
                      | None \<Rightarrow> tr1)
           in case reconcileDispatcherDeployment k r channel1 tr2 of
                (deploymentErr, channel2, tr3) \<Rightarrow>
                  (let tr4 = (case deploymentErr of
                                Some e \<Rightarrow> tr3 @ [Eventf channel2 ''Warning''
                                                   (String DispatcherDeploymentReconciliationFailed)
                                                   (''Failed To Reconcile Dispatcher Deployment: '' @ Error e)]
                              | None \<Rightarrow> tr3)
                   in if serviceErr \<noteq> None \<or> deploymentErr \<noteq> None
                      then (Some (Errorf ''failed to reconcile dispatcher resources''), channel2, tr4)
                      else (None, channel2, tr4))))"

section \<open>Reading a trace\<close>

fun isUpdateStatus :: "action \<Rightarrow> bool" where
  "isUpdateStatus (UpdateStatus ns c) = True"
| "isUpdateStatus a = False"

fun isGet_KafkaChannel :: "action \<Rightarrow> bool" where
  "isGet_KafkaChannel (Get_KafkaChannel ns nm) = True"
| "isGet_KafkaChannel a = False"

fun isSecretKeyRef :: "EnvVarSource \<Rightarrow> bool" where
  "isSecretKeyRef (SecretKeyRef nm ky) = True"
| "isSecretKeyRef v = False"

fun isCreate :: "action \<Rightarrow> bool" where
  "isCreate (Create_Service ns s) = True"
| "isCreate (Create_Deployment ns d) = True"
| "isCreate a = False"

fun isCreate_Deployment :: "action \<Rightarrow> bool" where
  "isCreate_Deployment (Create_Deployment ns d) = True"
| "isCreate_Deployment a = False"

text \<open>The channels for which the fan-out loop called \<open>updateKafkaChannelStatus\<close>, in order.\<close>

fun attempted :: "trace \<Rightarrow> KafkaChannel list" where
  "attempted [] = []"
| "attempted (Call_updateKafkaChannelStatus c # tr) = c # attempted tr"
| "attempted (a # tr) = attempted tr"

text \<open>The entries of a list of pointers that are not nil.\<close>

fun nonNil :: "'a option list \<Rightarrow> 'a list" where
  "nonNil [] = []"
| "nonNil (None # xs) = nonNil xs"
| "nonNil (Some x # xs) = x # nonNil xs"

text \<open>The namespace and the name a call about a service or a deployment is addressed to.\<close>

fun target :: "action \<Rightarrow> (string \<times> string) option" where
  "target (Get_Service ns nm) = Some (ns, nm)"
| "target (Create_Service ns s) = Some (ns, Name s)"
| "target (Get_Deployment ns nm) = Some (ns, nm)"
| "target (Create_Deployment ns d) = Some (ns, Name d)"
| "target a = None"

text \<open>The namespace written in the object a create call submits.\<close>

fun submittedNamespace :: "action \<Rightarrow> string option" where
  "submittedNamespace (Create_Service ns s) = Some (Namespace s)"
| "submittedNamespace (Create_Deployment ns d) = Some (Namespace d)"
| "submittedNamespace a = None"

section \<open>A scenario\<close>

text \<open>
  The scenario of the spec: channel \<open>chan-a\<close> in namespace \<open>ns1\<close>, topic
  \<open>ns1.chan-a\<close>, bound secret \<open>kafka-secret-ns1-chan-a\<close>; a second channel bound
  to another secret. The values given to the outside declarations are examples.
\<close>

definition unknownCondition :: Condition where
  "unknownCondition = \<lparr>cStatus = ConditionUnknown, Reason = [], Message = []\<rparr>"

definition trueCondition :: Condition where
  "trueCondition = \<lparr>cStatus = ConditionTrue, Reason = [], Message = []\<rparr>"

definition scenario_decls :: decls where
  "scenario_decls =
     \<lparr>KnativeEventingNamespace = ''knative-eventing'',
      KafkaSecretLabel = ''kafkasecret'',
      ServiceKind = ''Service'',
      DeploymentKind = ''Deployment'',
      CoreV1GroupVersion = ''v1'',
      AppsV1GroupVersion = ''apps/v1'',
      AppLabel = ''app'',
      KafkaChannelDispatcherLabel = ''kafkachannel-dispatcher'',
      KafkaChannelNameLabel = ''kafkachannel-name'',
      KafkaChannelNamespaceLabel = ''kafkachannel-namespace'',
      K8sAppDispatcherSelectorLabel = ''k8s-app'',
      K8sAppDispatcherSelectorValue = ''eventing-kafka-dispatchers'',
      MetricsPortName = ''metrics'',
      HealthPort = 8082,
      LivenessPath = ''/healthz'',
      ReadinessPath = ''/healthy'',
      DispatcherLivenessDelay = 10,
      DispatcherLivenessPeriod = 3,
      DispatcherReadinessDelay = 10,
      DispatcherReadinessPeriod = 3,
      DispatcherContainerName = ''kafkachannel-dispatcher'',
      ConfigMapName = ''config-logging'',
      DispatcherDnsSafeName = (\<lambda>c. Name c @ ''-'' @ Namespace c @ ''-dispatcher''),
      TopicName = (\<lambda>c. Namespace c @ ''.'' @ Name c),
      ChannelKey = (\<lambda>c. Namespace c @ ''/'' @ Name c),
      NewChannelOwnerReference = (\<lambda>c. OwnerReference ''messaging.knative.dev/v1beta1'' ''KafkaChannel'' (Name c)),
      RequirementInvalid = (\<lambda>ky op vals. None),
      PropagateDispatcherStatus =
        (\<lambda>cs ds. if 0 < AvailableReplicas ds
                  then cs\<lparr>DispatcherCondition := trueCondition\<rparr>
                  else cs\<lparr>DispatcherCondition := unknownCondition\<rparr>)\<rparr>"

definition chanA :: KafkaChannel where
  "chanA =
     \<lparr>APIVersion = ''messaging.knative.dev/v1beta1'', Kind = ''KafkaChannel'',
      Name = ''chan-a'', Namespace = ''ns1'',
      Labels = [(''kafkasecret'', ''kafka-secret-ns1-chan-a'')],
      OwnerReferences = [],
      Status = \<lparr>ServiceCondition = unknownCondition,
                EndpointsCondition = unknownCondition,
                DispatcherCondition = unknownCondition\<rparr>\<rparr>"

definition chanB :: KafkaChannel where
  "chanB =
     \<lparr>APIVersion = ''messaging.knative.dev/v1beta1'', Kind = ''KafkaChannel'',
      Name = ''chan-b'', Namespace = ''ns2'',
      Labels = [(''kafkasecret'', ''other-secret'')],
      OwnerReferences = [],
      Status = \<lparr>ServiceCondition = unknownCondition,
                EndpointsCondition = unknownCondition,
                DispatcherCondition = unknownCondition\<rparr>\<rparr>"

definition secretA :: Secret where
  "secretA =
     \<lparr>APIVersion = ''v1'', Kind = ''Secret'',
      Name = ''kafka-secret-ns1-chan-a'', Namespace = ''knative-eventing'',
      Labels = [], OwnerReferences = [],
      Data = [(''brokers'', ''broker:9092''), (''username'', ''user''), (''password'', ''pw'')]\<rparr>"

definition allValid :: StatusArgs where
  "allValid =
     \<lparr>serviceValid = True, serviceReason = [], serviceMessage = [],
      deploymentValid = True, deploymentReason = [], deploymentMessage = []\<rparr>"

text \<open>
  A secret reconciler over a fixed lister cache, whose first \<open>conflicts\<close> status
  updates are answered by a conflict and whose later ones succeed.
\<close>

definition cacheReconciler :: "KafkaChannel list \<Rightarrow> nat \<Rightarrow> kafkasecret_Reconciler" where
  "cacheReconciler cache conflicts =
     \<lparr>kafkachannelLister_List = cacheLister_List cache,
      kafkachannelLister_Get = cacheLister_Get cache,
      kafkaChannelClient_UpdateStatus =
        (\<lambda>tr ns c. if length (filter isUpdateStatus tr) < conflicts
                    then Some (StatusConflict ''the object has been modified'')
                    else None)\<rparr>"

text \<open>
  A channel reconciler whose listers give fixed answers, whose create calls
  succeed, and whose admin client resolves every topic to one secret name.
\<close>

definition fixedReconciler ::
  "(err + Service) \<Rightarrow> (err + Deployment) \<Rightarrow> string \<Rightarrow> kafkachannel_Reconciler" where
  "fixedReconciler svc dep secretName =
     \<lparr>serviceLister_Get = (\<lambda>tr ns nm. svc),
      deploymentLister_Get = (\<lambda>tr ns nm. dep),
      kubeClientset_Services_Create = (\<lambda>tr ns s. Inr s),
      kubeClientset_Deployments_Create = (\<lambda>tr ns d. Inr d),
      adminClient_GetKafkaSecretName = (\<lambda>topic. secretName),
      environment = \<lparr>ServiceAccount = ''eventing-kafka-channel-controller'',
                      MetricsPort = 8081,
                      MetricsDomain = ''eventing-kafka'',
                      DispatcherImage = ''dispatcher:latest''\<rparr>,
      config_Dispatcher = \<lparr>ConfigReplicas = 1,
                           MemoryLimit = ''128Mi'', CpuLimit = ''500m'',
                           MemoryRequest = ''50Mi'', CpuRequest = ''300m''\<rparr>\<rparr>"

definition someService :: Service where
  "someService =
     \<lparr>APIVersion = ''v1'', Kind = ''Service'',
      Name = ''chan-a-ns1-dispatcher'', Namespace = ''knative-eventing'',
      Labels = [], OwnerReferences = [], Ports = [], Selector = []\<rparr>"

definition someDeployment :: Deployment where
  "someDeployment =
     \<lparr>APIVersion = ''apps/v1'', Kind = ''Deployment'',
      Name = ''chan-a-ns1-dispatcher'', Namespace = ''knative-eventing'',
      Labels = [], OwnerReferences = [],
      Replicas = 1, MatchLabels = [], TemplateLabels = [],
      ServiceAccountName = [], Containers = [],
      DStatus = \<lparr>StatusReplicas = 1, ReadyReplicas = 1,
                 AvailableReplicas = 1, UnavailableReplicas = 0\<rparr>\<rparr>"

section \<open>The dispatcher deployment that is built\<close>

text \<open>
  C9. For a channel whose resolved secret name is not empty, the deployment that
  is built has one container, whose environment holds exactly 13 variables: the
  ten fixed ones, in the order namespace, pod name, container name,
  logging-config name, metrics port, metrics domain, health port, channel key,
  service name, topic name, none of them taken from a secret, and then the broker
  list, the user name and the password, each a reference to its key of the secret
  of that name.
\<close>

theorem C9_env_vars:
  assumes "adminClient_GetKafkaSecretName r (TopicName k channel) \<noteq> []"
  shows "\<exists>d c envVars.
           newDispatcherDeployment k r channel = Inr d
         \<and> Containers d = [c]
         \<and> Env c = envVars
         \<and> dispatcherDeploymentEnvVars k r channel = Inr envVars
         \<and> length envVars = 13
         \<and> map EnvName envVars =
             [NamespaceEnvKey, PodNameEnvVarKey, ContainerNameEnvVarKEy,
              KnativeLoggingConfigMapNameEnvVarKey, MetricsPortEnvVarKey,
              MetricsDomainEnvVarKey, HealthPortEnvVarKey, ChannelKeyEnvVarKey,
              ServiceNameEnvVarKey, KafkaTopicEnvVarKey,
              KafkaBrokerEnvVarKey, KafkaUsernameEnvVarKey, KafkaPasswordEnvVarKey]
         \<and> map EnvSource (drop 10 envVars) =
             [SecretKeyRef (adminClient_GetKafkaSecretName r (TopicName k channel)) KafkaSecretDataKeyBrokers,
              SecretKeyRef (adminClient_GetKafkaSecretName r (TopicName k channel)) KafkaSecretDataKeyUsername,
              SecretKeyRef (adminClient_GetKafkaSecretName r (TopicName k channel)) KafkaSecretDataKeyPassword]
         \<and> filter isSecretKeyRef (map EnvSource (take 10 envVars)) = []"
  using assms by (simp add: newDispatcherDeployment_def dispatcherDeploymentEnvVars_def Let_def)

theorem C9_env_vars_witness:
  "adminClient_GetKafkaSecretName
      (fixedReconciler (Inl (StatusNotFound [])) (Inl (StatusNotFound [])) ''kafka-secret-ns1-chan-a'')
      (TopicName scenario_decls chanA) \<noteq> []
   \<and> (\<exists>d c envVars.
         newDispatcherDeployment scenario_decls
           (fixedReconciler (Inl (StatusNotFound [])) (Inl (StatusNotFound [])) ''kafka-secret-ns1-chan-a'')
           chanA = Inr d
       \<and> Containers d = [c] \<and> Env c = envVars \<and> length envVars = 13)"
proof -
  have h: "adminClient_GetKafkaSecretName
      (fixedReconciler (Inl (StatusNotFound [])) (Inl (StatusNotFound [])) ''kafka-secret-ns1-chan-a'')
      (TopicName scenario_decls chanA) \<noteq> []"
    by (simp add: fixedReconciler_def)
  from C9_env_vars [OF h] h show ?thesis by blast
qed

section \<open>Namespace and name of the objects that are built\<close>

lemma newDispatcherDeployment_meta:
  "newDispatcherDeployment k r channel = Inr d \<Longrightarrow>
     Namespace d = KnativeEventingNamespace k \<and> Name d = DispatcherDnsSafeName k channel"
  by (auto simp: newDispatcherDeployment_def Let_def split: sum.splits)

lemma newDispatcherService_meta:
  "Namespace (newDispatcherService k r channel) = KnativeEventingNamespace k
   \<and> Name (newDispatcherService k r channel) = DispatcherDnsSafeName k channel"
  by (simp add: newDispatcherService_def Let_def)

section \<open>Fetching the service and the deployment\<close>

lemma reconcileDispatcherService_cases:
  "reconcileDispatcherService k r channel tr =
     (case serviceLister_Get r tr (KnativeEventingNamespace k) (DispatcherDnsSafeName k channel) of
        Inr s \<Rightarrow> (None, channel,
                   tr @ [Get_Service (KnativeEventingNamespace k) (DispatcherDnsSafeName k channel)])
      | Inl e \<Rightarrow>
          if IsNotFound e
          then (case kubeClientset_Services_Create r
                       (tr @ [Get_Service (KnativeEventingNamespace k) (DispatcherDnsSafeName k channel)])
                       (KnativeEventingNamespace k) (newDispatcherService k r channel) of
                  Inl e' \<Rightarrow> Some e' | Inr c \<Rightarrow> None,
                channel,
                tr @ [Get_Service (KnativeEventingNamespace k) (DispatcherDnsSafeName k channel),
                      Create_Service (KnativeEventingNamespace k) (newDispatcherService k r channel)])
          else (Some e, channel,
                tr @ [Get_Service (KnativeEventingNamespace k) (DispatcherDnsSafeName k channel)]))"
  by (simp add: reconcileDispatcherService_def getDispatcherService_def Let_def
                newDispatcherService_meta split: sum.splits)

lemma reconcileDispatcherService_channel:
  "fst (snd (reconcileDispatcherService k r channel tr)) = channel"
  by (simp add: reconcileDispatcherService_cases split: sum.splits)

lemma reconcileDispatcherService_trace:
  "\<exists>seg. snd (snd (reconcileDispatcherService k r channel tr)) =
           tr @ Get_Service (KnativeEventingNamespace k) (DispatcherDnsSafeName k channel) # seg
         \<and> (seg = [] \<or> seg = [Create_Service (KnativeEventingNamespace k) (newDispatcherService k r channel)])"
  by (simp add: reconcileDispatcherService_cases split: sum.splits)

lemma reconcileDispatcherDeployment_trace:
  "\<exists>seg. snd (snd (reconcileDispatcherDeployment k r channel tr)) =
           tr @ Get_Deployment (KnativeEventingNamespace k) (DispatcherDnsSafeName k channel) # seg
         \<and> (seg = [] \<or> (\<exists>d. newDispatcherDeployment k r channel = Inr d
                            \<and> seg = [Create_Deployment (KnativeEventingNamespace k) d]))"
  by (auto simp: reconcileDispatcherDeployment_def getDispatcherDeployment_def Let_def
           dest: newDispatcherDeployment_meta split: sum.splits)

text \<open>
  C5, as amended. When the fetch of the deployment fails with an error other
  than not-found, the reconciliation of the deployment marks the channel's
  Dispatcher condition Unknown and returns that error, having issued the fetch
  and no other call. When the fetch of the service fails with such an error, the
  reconciliation of the service returns that error, having issued the fetch and
  no other call, and leaves the channel as it was.
\<close>

theorem C5_fetch_failure:
  "(\<forall>e. deploymentLister_Get r tr (KnativeEventingNamespace k) (DispatcherDnsSafeName k channel) = Inl e
         \<and> \<not> IsNotFound e \<longrightarrow>
         reconcileDispatcherDeployment k r channel tr =
           (Some e,
            channel\<lparr>Status := MarkDispatcherUnknown ''DispatcherDeploymentReconciliationFailed''
                                 (''Failed To Get Dispatcher Deployment: '' @ Error e) (Status channel)\<rparr>,
            tr @ [Get_Deployment (KnativeEventingNamespace k) (DispatcherDnsSafeName k channel)])
       \<and> cStatus (DispatcherCondition (Status (fst (snd (reconcileDispatcherDeployment k r channel tr)))))
           = ConditionUnknown)
   \<and> (\<forall>e. serviceLister_Get r tr (KnativeEventingNamespace k) (DispatcherDnsSafeName k channel) = Inl e
         \<and> \<not> IsNotFound e \<longrightarrow>
         reconcileDispatcherService k r channel tr =
           (Some e, channel,
            tr @ [Get_Service (KnativeEventingNamespace k) (DispatcherDnsSafeName k channel)]))"
  by (simp add: reconcileDispatcherService_cases reconcileDispatcherDeployment_def
                getDispatcherDeployment_def Let_def MarkDispatcherUnknown_def)

theorem C5_fetch_failure_witness:
  "deploymentLister_Get (fixedReconciler (Inl (StatusOther ''timeout'')) (Inl (StatusOther ''timeout'')) ''s'') []
       (KnativeEventingNamespace scenario_decls) (DispatcherDnsSafeName scenario_decls chanA)
     = Inl (StatusOther ''timeout'')
   \<and> serviceLister_Get (fixedReconciler (Inl (StatusOther ''timeout'')) (Inl (StatusOther ''timeout'')) ''s'') []
       (KnativeEventingNamespace scenario_decls) (DispatcherDnsSafeName scenario_decls chanA)
     = Inl (StatusOther ''timeout'')
   \<and> \<not> IsNotFound (StatusOther ''timeout'')
   \<and> cStatus (DispatcherCondition (Status (fst (snd (reconcileDispatcherDeployment scenario_decls
         (fixedReconciler (Inl (StatusOther ''timeout'')) (Inl (StatusOther ''timeout'')) ''s'') chanA [])))))
       = ConditionUnknown
   \<and> reconcileDispatcherService scenario_decls
         (fixedReconciler (Inl (StatusOther ''timeout'')) (Inl (StatusOther ''timeout'')) ''s'') chanA []
       = (Some (StatusOther ''timeout''), chanA,
          [Get_Service (KnativeEventingNamespace scenario_decls) (DispatcherDnsSafeName scenario_decls chanA)])"
  using C5_fetch_failure [of "fixedReconciler (Inl (StatusOther ''timeout'')) (Inl (StatusOther ''timeout'')) ''s''"
                             "[]" scenario_decls chanA]
  by (simp add: fixedReconciler_def MarkDispatcherUnknown_def)

text \<open>
  The claim C5 as it is written fails for the service: the fetch of the service
  fails with an error that is not not-found, the error is returned, and the
  channel's Service condition, which was True, is still True, not Unknown, after
  the reconciliation of the service and after the whole reconciliation of the
  dispatcher.
\<close>

theorem C5_counterexample:
  "serviceLister_Get (fixedReconciler (Inl (StatusOther ''timeout'')) (Inr someDeployment) ''s'') []
       (KnativeEventingNamespace scenario_decls) (DispatcherDnsSafeName scenario_decls chanA)
     = Inl (StatusOther ''timeout'')
   \<and> \<not> IsNotFound (StatusOther ''timeout'')
   \<and> cStatus (ServiceCondition (Status (chanA\<lparr>Status := MarkServiceTrue (Status chanA)\<rparr>))) = ConditionTrue
   \<and> fst (reconcileDispatcherService scenario_decls
         (fixedReconciler (Inl (StatusOther ''timeout'')) (Inr someDeployment) ''s'')
         (chanA\<lparr>Status := MarkServiceTrue (Status chanA)\<rparr>) []) = Some (StatusOther ''timeout'')
   \<and> cStatus (ServiceCondition (Status (fst (snd (reconcileDispatcherService scenario_decls
         (fixedReconciler (Inl (StatusOther ''timeout'')) (Inr someDeployment) ''s'')
         (chanA\<lparr>Status := MarkServiceTrue (Status chanA)\<rparr>) []))))) \<noteq> ConditionUnknown
   \<and> cStatus (ServiceCondition (Status (fst (snd (reconcileDispatcher scenario_decls
         (fixedReconciler (Inl (StatusOther ''timeout'')) (Inr someDeployment) ''s'')
         (chanA\<lparr>Status := MarkServiceTrue (Status chanA)\<rparr>) []))))) \<noteq> ConditionUnknown"
  by (simp add: reconcileDispatcher_def reconcileDispatcherService_cases reconcileDispatcherDeployment_def
                getDispatcherDeployment_def Let_def fixedReconciler_def scenario_decls_def
                MarkServiceTrue_def chanA_def)

text \<open>
  C6, as amended. When the fetch of the deployment succeeds, the reconciliation
  of the deployment returns no error, issues no other call, and the channel's
  status becomes what PropagateDispatcherStatus makes of it and of the status of
  the deployment that was fetched. When the fetch of the service succeeds, the
  reconciliation of the service returns no error, issues no other call, and
  leaves the channel as it was.
\<close>

theorem C6_fetch_success:
  "(\<forall>d. deploymentLister_Get r tr (KnativeEventingNamespace k) (DispatcherDnsSafeName k channel) = Inr d
         \<longrightarrow>
         reconcileDispatcherDeployment k r channel tr =
           (None,
            channel\<lparr>Status := PropagateDispatcherStatus k (Status channel) (DStatus d)\<rparr>,
            tr @ [Get_Deployment (KnativeEventingNamespace k) (DispatcherDnsSafeName k channel)]))
   \<and> (\<forall>s. serviceLister_Get r tr (KnativeEventingNamespace k) (DispatcherDnsSafeName k channel) = Inr s
         \<longrightarrow>
         reconcileDispatcherService k r channel tr =
           (None, channel,
            tr @ [Get_Service (KnativeEventingNamespace k) (DispatcherDnsSafeName k channel)]))"
  by (simp add: reconcileDispatcherService_cases reconcileDispatcherDeployment_def
                getDispatcherDeployment_def Let_def)

theorem C6_fetch_success_witness:
  "deploymentLister_Get (fixedReconciler (Inr someService) (Inr someDeployment) ''s'') []
       (KnativeEventingNamespace scenario_decls) (DispatcherDnsSafeName scenario_decls chanA)
     = Inr someDeployment
   \<and> serviceLister_Get (fixedReconciler (Inr someService) (Inr someDeployment) ''s'') []
       (KnativeEventingNamespace scenario_decls) (DispatcherDnsSafeName scenario_decls chanA)
     = Inr someService
   \<and> reconcileDispatcherDeployment scenario_decls
         (fixedReconciler (Inr someService) (Inr someDeployment) ''s'') chanA []
       = (None,
          chanA\<lparr>Status := PropagateDispatcherStatus scenario_decls (Status chanA) (DStatus someDeployment)\<rparr>,
          [Get_Deployment (KnativeEventingNamespace scenario_decls) (DispatcherDnsSafeName scenario_decls chanA)])
   \<and> reconcileDispatcherService scenario_decls
         (fixedReconciler (Inr someService) (Inr someDeployment) ''s'') chanA []
       = (None, chanA,
          [Get_Service (KnativeEventingNamespace scenario_decls) (DispatcherDnsSafeName scenario_decls chanA)])"
  using C6_fetch_success [of "fixedReconciler (Inr someService) (Inr someDeployment) ''s''"
                             "[]" scenario_decls chanA]
  by (simp add: fixedReconciler_def)

text \<open>
  The claim C6 as it is written fails for the service: the fetch of the service
  succeeds, and the channel's Service condition, which was Unknown, is still
  Unknown, not True, after the reconciliation of the service and after the
  whole reconciliation of the dispatcher.
\<close>

theorem C6_counterexample:
  "serviceLister_Get (fixedReconciler (Inr someService) (Inr someDeployment) ''s'') []
       (KnativeEventingNamespace scenario_decls) (DispatcherDnsSafeName scenario_decls chanA)
     = Inr someService
   \<and> cStatus (ServiceCondition (Status chanA)) = ConditionUnknown
   \<and> cStatus (ServiceCondition (Status (fst (snd (reconcileDispatcherService scenario_decls
         (fixedReconciler (Inr someService) (Inr someDeployment) ''s'') chanA []))))) \<noteq> ConditionTrue
   \<and> cStatus (ServiceCondition (Status (fst (snd (reconcileDispatcher scenario_decls
         (fixedReconciler (Inr someService) (Inr someDeployment) ''s'') chanA []))))) \<noteq> ConditionTrue"
  by (simp add: reconcileDispatcher_def reconcileDispatcherService_cases reconcileDispatcherDeployment_def
                getDispatcherDeployment_def Let_def fixedReconciler_def scenario_decls_def
                chanA_def unknownCondition_def)

section \<open>The reconciliation of the dispatcher\<close>

text \<open>The trace on which the deployment is reconciled: that of the service, with its warning event.\<close>

lemma reconcileDispatcher_unfold:
  "reconcileDispatcher k r channel tr =
     (let sv = reconcileDispatcherService k r channel tr;
          tr2 = (case fst sv of
                   Some e \<Rightarrow> snd (snd sv) @ [Eventf channel ''Warning''
                                 ''DispatcherServiceReconciliationFailed''
                                 (''Failed To Reconcile Dispatcher Service: '' @ Error e)]
                 | None \<Rightarrow> snd (snd sv));
          dp = reconcileDispatcherDeployment k r channel tr2;
          tr4 = (case fst dp of
                   Some e \<Rightarrow> snd (snd dp) @ [Eventf (fst (snd dp)) ''Warning''
                                 ''DispatcherDeploymentReconciliationFailed''
                                 (''Failed To Reconcile Dispatcher Deployment: '' @ Error e)]
                 | None \<Rightarrow> snd (snd dp))
      in (if fst sv \<noteq> None \<or> fst dp \<noteq> None
          then Some (Errorf ''failed to reconcile dispatcher resources'') else None,
          fst (snd dp), tr4))"
proof -
  obtain se c1 t1 where sv: "reconcileDispatcherService k r channel tr = (se, c1, t1)"
    by (cases "reconcileDispatcherService k r channel tr") auto
  have c1: "c1 = channel"
    using reconcileDispatcherService_channel [of k r channel tr] sv by simp
  show ?thesis
    by (simp add: reconcileDispatcher_def sv c1 Let_def split: prod.splits option.splits)
qed

text \<open>
  C7. Every reconciliation of the dispatcher fetches the service and then
  fetches the deployment, whatever the outcome of the service was; and it
  returns the one error "failed to reconcile dispatcher resources" exactly when
  the reconciliation of the service or that of the deployment returned an
  error, and no error otherwise.
\<close>

theorem C7_both_attempted:
  "\<exists>tr2 mid post.
       snd (snd (reconcileDispatcher k r channel tr)) =
         tr @ Get_Service (KnativeEventingNamespace k) (DispatcherDnsSafeName k channel) # mid
            @ Get_Deployment (KnativeEventingNamespace k) (DispatcherDnsSafeName k channel) # post
     \<and> tr2 = tr @ Get_Service (KnativeEventingNamespace k) (DispatcherDnsSafeName k channel) # mid
     \<and> fst (reconcileDispatcher k r channel tr) =
         (if fst (reconcileDispatcherService k r channel tr) \<noteq> None
             \<or> fst (reconcileDispatcherDeployment k r channel tr2) \<noteq> None
          then Some (Errorf ''failed to reconcile dispatcher resources'')
          else None)"
proof -
  define sv where "sv = reconcileDispatcherService k r channel tr"
  define tr2 where "tr2 = (case fst sv of
                   Some e \<Rightarrow> snd (snd sv) @ [Eventf channel ''Warning''
                                 ''DispatcherServiceReconciliationFailed''
                                 (''Failed To Reconcile Dispatcher Service: '' @ Error e)]
                 | None \<Rightarrow> snd (snd sv))"
  define dp where "dp = reconcileDispatcherDeployment k r channel tr2"
  obtain s1 where s1: "snd (snd sv) =
      tr @ Get_Service (KnativeEventingNamespace k) (DispatcherDnsSafeName k channel) # s1"
    using reconcileDispatcherService_trace [of k r channel tr] sv_def by auto
  obtain mid where mid: "tr2 =
      tr @ Get_Service (KnativeEventingNamespace k) (DispatcherDnsSafeName k channel) # mid"
    using s1 by (cases "fst sv") (auto simp: tr2_def)
  obtain s2 where s2: "snd (snd dp) =
      tr2 @ Get_Deployment (KnativeEventingNamespace k) (DispatcherDnsSafeName k channel) # s2"
    using reconcileDispatcherDeployment_trace [of k r channel tr2] dp_def by auto
  obtain post where post: "snd (snd (reconcileDispatcher k r channel tr)) =
      tr2 @ Get_Deployment (KnativeEventingNamespace k) (DispatcherDnsSafeName k channel) # post"
    using s2 by (cases "fst dp")
       (auto simp: reconcileDispatcher_unfold Let_def sv_def [symmetric] tr2_def [symmetric]
                   dp_def [symmetric])
  have res: "fst (reconcileDispatcher k r channel tr) =
         (if fst sv \<noteq> None \<or> fst dp \<noteq> None
          then Some (Errorf ''failed to reconcile dispatcher resources'') else None)"
    by (simp add: reconcileDispatcher_unfold Let_def sv_def [symmetric] tr2_def [symmetric]
                   dp_def [symmetric])
  have "snd (snd (reconcileDispatcher k r channel tr)) =
         tr @ Get_Service (KnativeEventingNamespace k) (DispatcherDnsSafeName k channel) # mid
            @ Get_Deployment (KnativeEventingNamespace k) (DispatcherDnsSafeName k channel) # post"
    using post mid by simp
  then show ?thesis
    using res mid unfolding sv_def dp_def by blast
qed

theorem C7_both_attempted_witness:
  "fst (reconcileDispatcherService scenario_decls
          (fixedReconciler (Inl (StatusOther ''timeout'')) (Inr someDeployment) ''s'') chanA [])
     = Some (StatusOther ''timeout'')
   \<and> (\<exists>mid post.
         snd (snd (reconcileDispatcher scenario_decls
                (fixedReconciler (Inl (StatusOther ''timeout'')) (Inr someDeployment) ''s'') chanA [])) =
           [] @ Get_Service (KnativeEventingNamespace scenario_decls) (DispatcherDnsSafeName scenario_decls chanA) # mid
              @ Get_Deployment (KnativeEventingNamespace scenario_decls) (DispatcherDnsSafeName scenario_decls chanA) # post)
   \<and> fst (reconcileDispatcher scenario_decls
            (fixedReconciler (Inl (StatusOther ''timeout'')) (Inr someDeployment) ''s'') chanA [])
       = Some (Errorf ''failed to reconcile dispatcher resources'')"
proof -
  have s: "fst (reconcileDispatcherService scenario_decls
          (fixedReconciler (Inl (StatusOther ''timeout'')) (Inr someDeployment) ''s'') chanA [])
     = Some (StatusOther ''timeout'')"
    by (simp add: reconcileDispatcherService_cases fixedReconciler_def)
  from C7_both_attempted [of scenario_decls
          "fixedReconciler (Inl (StatusOther ''timeout'')) (Inr someDeployment) ''s''" chanA "[]"] s
  show ?thesis by auto
qed

text \<open>
  C10. Every call that a reconciliation of the dispatcher issues about a service
  or a deployment, fetch or create, is addressed to the namespace
  KnativeEventingNamespace and to the one name derived from the channel, and
  every object submitted for creation has that namespace written in it; so the
  namespace of the fetch is the namespace of the create. When the channel lives
  in another namespace, no call is addressed to the channel's namespace.
\<close>

theorem C10_system_namespace:
  "\<exists>seg. snd (snd (reconcileDispatcher k r channel tr)) = tr @ seg
       \<and> (\<forall>a \<in> set seg. \<forall>ns nm. target a = Some (ns, nm) \<longrightarrow>
              ns = KnativeEventingNamespace k \<and> nm = DispatcherDnsSafeName k channel)
       \<and> (\<forall>a \<in> set seg. \<forall>ns. submittedNamespace a = Some ns \<longrightarrow>
              ns = KnativeEventingNamespace k)
       \<and> (Namespace channel \<noteq> KnativeEventingNamespace k \<longrightarrow>
            (\<forall>a \<in> set seg. \<forall>ns nm. target a = Some (ns, nm) \<longrightarrow> ns \<noteq> Namespace channel))
       \<and> filter (\<lambda>a. target a \<noteq> None) seg \<noteq> []"
proof -
  define sv where "sv = reconcileDispatcherService k r channel tr"
  define tr2 where "tr2 = (case fst sv of
                   Some e \<Rightarrow> snd (snd sv) @ [Eventf channel ''Warning''
                                 ''DispatcherServiceReconciliationFailed''
                                 (''Failed To Reconcile Dispatcher Service: '' @ Error e)]
                 | None \<Rightarrow> snd (snd sv))"
  define dp where "dp = reconcileDispatcherDeployment k r channel tr2"
  define ok where "ok = (\<lambda>a. (\<forall>ns nm. target a = Some (ns, nm) \<longrightarrow>
              ns = KnativeEventingNamespace k \<and> nm = DispatcherDnsSafeName k channel)
            \<and> (\<forall>ns. submittedNamespace a = Some ns \<longrightarrow> ns = KnativeEventingNamespace k))"
  obtain s1 where s1: "snd (snd sv) =
      tr @ Get_Service (KnativeEventingNamespace k) (DispatcherDnsSafeName k channel) # s1"
      "s1 = [] \<or> s1 = [Create_Service (KnativeEventingNamespace k) (newDispatcherService k r channel)]"
    using reconcileDispatcherService_trace [of k r channel tr] sv_def by auto
  have ok1: "\<forall>a \<in> set (Get_Service (KnativeEventingNamespace k) (DispatcherDnsSafeName k channel) # s1). ok a"
    using s1(2) by (auto simp: ok_def newDispatcherService_meta)
  obtain m where m: "tr2 = snd (snd sv) @ m" "\<forall>a \<in> set m. ok a"
    by (cases "fst sv") (auto simp: tr2_def ok_def)
  obtain s2 where s2: "snd (snd dp) =
      tr2 @ Get_Deployment (KnativeEventingNamespace k) (DispatcherDnsSafeName k channel) # s2"
      "s2 = [] \<or> (\<exists>d. newDispatcherDeployment k r channel = Inr d
                            \<and> s2 = [Create_Deployment (KnativeEventingNamespace k) d])"
    using reconcileDispatcherDeployment_trace [of k r channel tr2] dp_def by auto
  have ok2: "\<forall>a \<in> set (Get_Deployment (KnativeEventingNamespace k) (DispatcherDnsSafeName k channel) # s2). ok a"
    using s2(2) by (auto simp: ok_def dest: newDispatcherDeployment_meta)
  obtain e where e: "snd (snd (reconcileDispatcher k r channel tr)) = snd (snd dp) @ e" "\<forall>a \<in> set e. ok a"
    by (cases "fst dp")
       (auto simp: reconcileDispatcher_unfold Let_def sv_def [symmetric] tr2_def [symmetric]
                   dp_def [symmetric] ok_def)
  define seg where "seg = Get_Service (KnativeEventingNamespace k) (DispatcherDnsSafeName k channel) # s1 @ m
       @ Get_Deployment (KnativeEventingNamespace k) (DispatcherDnsSafeName k channel) # s2 @ e"
  have t: "snd (snd (reconcileDispatcher k r channel tr)) = tr @ seg"
    by (simp add: seg_def e(1) s2(1) m(1) s1(1))
  have okseg: "\<forall>a \<in> set seg. ok a"
    using ok1 ok2 m(2) e(2) by (auto simp: seg_def)
  have ne: "filter (\<lambda>a. target a \<noteq> None) seg \<noteq> []"
    by (simp add: seg_def)
  from t okseg ne show ?thesis
    unfolding ok_def by blast
qed

theorem C10_system_namespace_witness:
  "Namespace chanA \<noteq> KnativeEventingNamespace scenario_decls
   \<and> (\<exists>seg. snd (snd (reconcileDispatcher scenario_decls
                 (fixedReconciler (Inl (StatusNotFound ''nf'')) (Inl (StatusNotFound ''nf'')) ''s'') chanA [])) = [] @ seg
         \<and> filter (\<lambda>a. target a \<noteq> None) seg \<noteq> []
         \<and> list_all (\<lambda>a. target a = None \<or> target a = Some (''knative-eventing'', ''chan-a-ns1-dispatcher'')) seg)"
proof -
  have n: "Namespace chanA \<noteq> KnativeEventingNamespace scenario_decls"
    by (simp add: chanA_def scenario_decls_def)
  have d: "KnativeEventingNamespace scenario_decls = ''knative-eventing''"
     "DispatcherDnsSafeName scenario_decls chanA = ''chan-a-ns1-dispatcher''"
    by (simp_all add: chanA_def scenario_decls_def)
  from C10_system_namespace [of scenario_decls
        "fixedReconciler (Inl (StatusNotFound ''nf'')) (Inl (StatusNotFound ''nf'')) ''s''" chanA "[]"]
  obtain seg where seg: "snd (snd (reconcileDispatcher scenario_decls
                 (fixedReconciler (Inl (StatusNotFound ''nf'')) (Inl (StatusNotFound ''nf'')) ''s'') chanA [])) = [] @ seg"
     "\<forall>a \<in> set seg. \<forall>ns nm. target a = Some (ns, nm) \<longrightarrow>
              ns = KnativeEventingNamespace scenario_decls \<and> nm = DispatcherDnsSafeName scenario_decls chanA"
     "filter (\<lambda>a. target a \<noteq> None) seg \<noteq> []"
    by blast
  have "list_all (\<lambda>a. target a = None \<or> target a = Some (''knative-eventing'', ''chan-a-ns1-dispatcher'')) seg"
    unfolding list_all_iff
  proof
    fix a assume a: "a \<in> set seg"
    show "target a = None \<or> target a = Some (''knative-eventing'', ''chan-a-ns1-dispatcher'')"
    proof (cases "target a")
      case None
      then show ?thesis by simp
    next
      case (Some p)
      obtain ns nm where p: "p = (ns, nm)" by (cases p)
      from seg(2) a Some p have "ns = KnativeEventingNamespace scenario_decls
          \<and> nm = DispatcherDnsSafeName scenario_decls chanA" by blast
      with Some p d show ?thesis by simp
    qed
  qed
  with n seg(1) seg(3) show ?thesis by blast
qed

section \<open>The retry of a status update\<close>

lemma markedCopy_meta:
  "Namespace (markedCopy p c) = Namespace c \<and> Name (markedCopy p c) = Name c
   \<and> Status (markedCopy p c) = markStatus p (Status c)"
  by (simp add: markedCopy_def)

lemma updateFromCopy_eq:
  "updateFromCopy r p c tr =
     (if Status c = markStatus p (Status c) then (Returned None, Some c, tr)
      else (Returned (kafkaChannelClient_UpdateStatus r tr (Namespace c) (markedCopy p c)),
            Some c, tr @ [UpdateStatus (Namespace c) (markedCopy p c)]))"
  by (simp add: updateFromCopy_def markedCopy_meta Let_def split: option.splits)

lemma updateAttempt_first:
  "updateAttempt r p 0 (Some oc, tr) = updateFromCopy r p oc tr"
  by (simp add: updateAttempt_def)

lemma updateAttempt_later:
  "0 < a \<Longrightarrow> updateAttempt r p a (Some oc, tr) =
     (case kafkachannelLister_Get r tr (Namespace oc) (Name oc) of
        Inl e \<Rightarrow> (Returned (Some e), None, tr @ [Get_KafkaChannel (Namespace oc) (Name oc)])
      | Inr fresh \<Rightarrow> updateFromCopy r p fresh (tr @ [Get_KafkaChannel (Namespace oc) (Name oc)]))"
  by (simp add: updateAttempt_def)

lemma RetryErrors_nil:
  "RetryErrors n (updateAttempt r p) a le (None, tr) =
     (if n = 0 then Returned le else Panicked, None, tr)"
  by (cases n) (simp_all add: updateAttempt_def)

text \<open>One later attempt: what it returns, the copy it leaves, and the calls it appends.\<close>

lemma updateAttempt_later_shape:
  assumes "0 < a"
  shows "(\<exists>e. kafkachannelLister_Get r tr (Namespace oc) (Name oc) = Inl e
            \<and> updateAttempt r p a (Some oc, tr) =
                (Returned (Some e), None, tr @ [Get_KafkaChannel (Namespace oc) (Name oc)]))
       \<or> (\<exists>fresh. kafkachannelLister_Get r tr (Namespace oc) (Name oc) = Inr fresh
            \<and> Status fresh = markStatus p (Status fresh)
            \<and> updateAttempt r p a (Some oc, tr) =
                (Returned None, Some fresh, tr @ [Get_KafkaChannel (Namespace oc) (Name oc)]))
       \<or> (\<exists>fresh. kafkachannelLister_Get r tr (Namespace oc) (Name oc) = Inr fresh
            \<and> Status fresh \<noteq> markStatus p (Status fresh)
            \<and> updateAttempt r p a (Some oc, tr) =
                (Returned (kafkaChannelClient_UpdateStatus r
                             (tr @ [Get_KafkaChannel (Namespace oc) (Name oc)])
                             (Namespace fresh) (markedCopy p fresh)),
                 Some fresh,
                 tr @ [Get_KafkaChannel (Namespace oc) (Name oc),
                       UpdateStatus (Namespace fresh) (markedCopy p fresh)]))"
  using assms
  by (cases "kafkachannelLister_Get r tr (Namespace oc) (Name oc)")
     (auto simp: updateAttempt_later updateFromCopy_eq)

text \<open>The calls of a run of later attempts: only reloads and status updates, at most one of each per step.\<close>

lemma RetryErrors_later_calls:
  assumes "RetryErrors n (updateAttempt r p) a le (Some oc, tr) = (out, oc', tr')" "0 < a"
  shows "\<exists>seg. tr' = tr @ seg
           \<and> (\<forall>x \<in> set seg. isUpdateStatus x \<or> isGet_KafkaChannel x)
           \<and> length (filter isUpdateStatus seg) \<le> n
           \<and> length (filter isGet_KafkaChannel seg) \<le> n
           \<and> (0 < n \<longrightarrow> (\<exists>rest. seg = Get_KafkaChannel (Namespace oc) (Name oc) # rest))"
  using assms
proof (induction n arbitrary: a le oc tr out oc' tr')
  case 0
  then show ?case by simp
next
  case (Suc n)
  from updateAttempt_later_shape [OF Suc.prems(2), of r tr oc p]
  consider
    (getfail) e where "kafkachannelLister_Get r tr (Namespace oc) (Name oc) = Inl e"
      "updateAttempt r p a (Some oc, tr) =
         (Returned (Some e), None, tr @ [Get_KafkaChannel (Namespace oc) (Name oc)])"
  | (same) fresh where "updateAttempt r p a (Some oc, tr) =
         (Returned None, Some fresh, tr @ [Get_KafkaChannel (Namespace oc) (Name oc)])"
  | (upd) fresh where "updateAttempt r p a (Some oc, tr) =
         (Returned (kafkaChannelClient_UpdateStatus r
                             (tr @ [Get_KafkaChannel (Namespace oc) (Name oc)])
                             (Namespace fresh) (markedCopy p fresh)),
          Some fresh,
          tr @ [Get_KafkaChannel (Namespace oc) (Name oc),
                UpdateStatus (Namespace fresh) (markedCopy p fresh)])"
    by blast
  then show ?case
  proof cases
    case getfail
    with Suc.prems(1) have "tr' = tr @ [Get_KafkaChannel (Namespace oc) (Name oc)]"
      by (auto simp: RetryErrors_nil split: if_splits)
    then show ?thesis by simp
  next
    case same
    with Suc.prems(1) have "tr' = tr @ [Get_KafkaChannel (Namespace oc) (Name oc)]"
      by simp
    then show ?thesis by simp
  next
    case upd
    show ?thesis
    proof (cases "kafkaChannelClient_UpdateStatus r
                             (tr @ [Get_KafkaChannel (Namespace oc) (Name oc)])
                             (Namespace fresh) (markedCopy p fresh)")
      case None
      with upd Suc.prems(1) have "tr' = tr @ [Get_KafkaChannel (Namespace oc) (Name oc),
                UpdateStatus (Namespace fresh) (markedCopy p fresh)]"
        by simp
      then show ?thesis by simp
    next
      case (Some e)
      show ?thesis
      proof (cases "IsConflict e")
        case False
        with Some upd Suc.prems(1) have "tr' = tr @ [Get_KafkaChannel (Namespace oc) (Name oc),
                UpdateStatus (Namespace fresh) (markedCopy p fresh)]"
          by simp
        then show ?thesis by simp
      next
        case True
        with Some upd Suc.prems(1) have rec: "RetryErrors n (updateAttempt r p) (a + 1) (Some e)
            (Some fresh, tr @ [Get_KafkaChannel (Namespace oc) (Name oc),
                UpdateStatus (Namespace fresh) (markedCopy p fresh)]) = (out, oc', tr')"
          by simp
        from Suc.IH [OF rec] obtain seg where seg:
           "tr' = (tr @ [Get_KafkaChannel (Namespace oc) (Name oc),
                UpdateStatus (Namespace fresh) (markedCopy p fresh)]) @ seg"
           "\<forall>x \<in> set seg. isUpdateStatus x \<or> isGet_KafkaChannel x"
           "length (filter isUpdateStatus seg) \<le> n"
           "length (filter isGet_KafkaChannel seg) \<le> n"
          by auto
        have t: "tr' = tr @ (Get_KafkaChannel (Namespace oc) (Name oc)
                # UpdateStatus (Namespace fresh) (markedCopy p fresh) # seg)"
          using seg(1) by simp
        show ?thesis
          by (rule exI [of _ "Get_KafkaChannel (Namespace oc) (Name oc)
                # UpdateStatus (Namespace fresh) (markedCopy p fresh) # seg"])
             (use t seg(2-4) in auto)
      qed
    qed
  qed
qed

lemma Cons_eq_append_Cons_cases:
  "x # xs = pre @ y # post \<Longrightarrow>
     (pre = [] \<and> x = y \<and> xs = post) \<or> (\<exists>pre'. pre = x # pre' \<and> xs = pre' @ y # post)"
  by (cases pre) auto

text \<open>
  In a run of later attempts every status update comes right after a reload that
  succeeded and submits the marked copy of the channel that reload returned; and
  after an update answered by a conflict, when a step is left, the next call is
  the reload of that channel.
\<close>

lemma RetryErrors_later_reloads:
  assumes "RetryErrors n (updateAttempt r p) a le (Some oc, tr) = (out, oc', tr')" "0 < a"
      and "tr' = tr @ pre @ UpdateStatus ns u # post"
  shows "(\<exists>pre' ns' nm' fresh.
            pre = pre' @ [Get_KafkaChannel ns' nm']
          \<and> kafkachannelLister_Get r (tr @ pre') ns' nm' = Inr fresh
          \<and> u = markedCopy p fresh \<and> ns = Namespace fresh
          \<and> Status fresh \<noteq> Status u)
       \<and> (\<forall>e. kafkaChannelClient_UpdateStatus r (tr @ pre) ns u = Some e \<and> IsConflict e
                \<and> length (filter isGet_KafkaChannel pre) < n
              \<longrightarrow> (\<exists>rest. post = Get_KafkaChannel (Namespace u) (Name u) # rest))"
  using assms
proof (induction n arbitrary: a le oc tr out oc' tr' pre)
  case 0
  then show ?case by simp
next
  case (Suc n)
  let ?G = "Get_KafkaChannel (Namespace oc) (Name oc)"
  from updateAttempt_later_shape [OF Suc.prems(2), of r tr oc p]
  consider
    (getfail) e where "kafkachannelLister_Get r tr (Namespace oc) (Name oc) = Inl e"
      "updateAttempt r p a (Some oc, tr) = (Returned (Some e), None, tr @ [?G])"
  | (same) fresh where "updateAttempt r p a (Some oc, tr) = (Returned None, Some fresh, tr @ [?G])"
  | (upd) fresh where "kafkachannelLister_Get r tr (Namespace oc) (Name oc) = Inr fresh"
      "Status fresh \<noteq> markStatus p (Status fresh)"
      "updateAttempt r p a (Some oc, tr) =
         (Returned (kafkaChannelClient_UpdateStatus r (tr @ [?G]) (Namespace fresh) (markedCopy p fresh)),
          Some fresh, tr @ [?G, UpdateStatus (Namespace fresh) (markedCopy p fresh)])"
    by blast
  then show ?case
  proof cases
    case getfail
    with Suc.prems(1) have "tr' = tr @ [?G]"
      by (auto simp: RetryErrors_nil split: if_splits)
    with Suc.prems(3) have "[?G] = pre @ UpdateStatus ns u # post" by simp
    then show ?thesis by (auto dest: Cons_eq_append_Cons_cases)
  next
    case same
    with Suc.prems(1) have "tr' = tr @ [?G]" by simp
    with Suc.prems(3) have "[?G] = pre @ UpdateStatus ns u # post" by simp
    then show ?thesis by (auto dest: Cons_eq_append_Cons_cases)
  next
    case upd
    let ?U = "UpdateStatus (Namespace fresh) (markedCopy p fresh)"
    let ?resp = "kafkaChannelClient_UpdateStatus r (tr @ [?G]) (Namespace fresh) (markedCopy p fresh)"
    have first: "\<exists>pre' ns' nm' fr.
            [?G] = pre' @ [Get_KafkaChannel ns' nm']
          \<and> kafkachannelLister_Get r (tr @ pre') ns' nm' = Inr fr
          \<and> markedCopy p fresh = markedCopy p fr \<and> Namespace fresh = Namespace fr
          \<and> Status fr \<noteq> Status (markedCopy p fresh)"
      by (rule exI [of _ "[]"]) (use upd(1,2) in \<open>auto simp: markedCopy_meta\<close>)
    show ?thesis
    proof (cases "\<exists>e. ?resp = Some e \<and> IsConflict e")
      case False
      with upd(3) Suc.prems(1) have "tr' = tr @ [?G, ?U]"
        by (cases ?resp) auto
      with Suc.prems(3) have "?G # [?U] = pre @ UpdateStatus ns u # post" by simp
      then have p: "pre = [?G]" "UpdateStatus ns u = ?U" "post = []"
        by (auto dest!: Cons_eq_append_Cons_cases)
      from p first False show ?thesis by auto
    next
      case True
      then obtain e where e: "?resp = Some e" "IsConflict e" by blast
      with upd(3) Suc.prems(1) have rec: "RetryErrors n (updateAttempt r p) (a + 1) (Some e)
            (Some fresh, tr @ [?G, ?U]) = (out, oc', tr')"
        by simp
      from RetryErrors_later_calls [OF rec] obtain seg where seg:
           "tr' = (tr @ [?G, ?U]) @ seg"
           "0 < n \<longrightarrow> (\<exists>rest. seg = Get_KafkaChannel (Namespace fresh) (Name fresh) # rest)"
        by auto
      from seg(1) Suc.prems(3) have "?G # ?U # seg = pre @ UpdateStatus ns u # post" by simp
      then consider
          (here) "pre = [?G]" "UpdateStatus ns u = ?U" "post = seg"
        | (there) pre2 where "pre = ?G # ?U # pre2" "seg = pre2 @ UpdateStatus ns u # post"
        by (auto dest!: Cons_eq_append_Cons_cases)
      then show ?thesis
      proof cases
        case here
        from here first seg(2) show ?thesis by (auto simp: markedCopy_meta)
      next
        case there
        from there(2) seg(1) have d: "tr' = (tr @ [?G, ?U]) @ pre2 @ UpdateStatus ns u # post"
          by simp
        from Suc.IH [OF rec _ d]
        have ih: "(\<exists>pre' ns' nm' fr.
            pre2 = pre' @ [Get_KafkaChannel ns' nm']
          \<and> kafkachannelLister_Get r ((tr @ [?G, ?U]) @ pre') ns' nm' = Inr fr
          \<and> u = markedCopy p fr \<and> ns = Namespace fr
          \<and> Status fr \<noteq> Status u)"
          "(\<forall>e. kafkaChannelClient_UpdateStatus r ((tr @ [?G, ?U]) @ pre2) ns u = Some e \<and> IsConflict e
                \<and> length (filter isGet_KafkaChannel pre2) < n
              \<longrightarrow> (\<exists>rest. post = Get_KafkaChannel (Namespace u) (Name u) # rest))"
          by simp_all
        from ih(1) obtain pre' ns' nm' fr where fr:
            "pre2 = pre' @ [Get_KafkaChannel ns' nm']"
            "kafkachannelLister_Get r ((tr @ [?G, ?U]) @ pre') ns' nm' = Inr fr"
            "u = markedCopy p fr" "ns = Namespace fr" "Status fr \<noteq> Status u"
          by blast
        have one: "\<exists>pre'' ns' nm' fr.
            pre = pre'' @ [Get_KafkaChannel ns' nm']
          \<and> kafkachannelLister_Get r (tr @ pre'') ns' nm' = Inr fr
          \<and> u = markedCopy p fr \<and> ns = Namespace fr
          \<and> Status fr \<noteq> Status u"
          by (rule exI [of _ "?G # ?U # pre'"]) (use fr there(1) in auto)
        have two: "\<forall>e. kafkaChannelClient_UpdateStatus r (tr @ pre) ns u = Some e \<and> IsConflict e
                \<and> length (filter isGet_KafkaChannel pre) < Suc n
              \<longrightarrow> (\<exists>rest. post = Get_KafkaChannel (Namespace u) (Name u) # rest)"
          using ih(2) there(1) by simp
        from one two show ?thesis by blast
      qed
    qed
  qed
qed

text \<open>When no reload fails with a conflict error, no attempt finds the captured channel nil.\<close>

lemma RetryErrors_no_panic:
  assumes "\<forall>t ns nm e. kafkachannelLister_Get r t ns nm = Inl e \<longrightarrow> \<not> IsConflict e"
  shows "fst (RetryErrors n (updateAttempt r p) a le (Some oc, tr)) \<noteq> Panicked"
proof (induction n arbitrary: a le oc tr)
  case 0
  then show ?case by simp
next
  case (Suc n)
  show ?case
  proof (cases "a = 0")
    case True
    then show ?thesis
      using Suc.IH by (auto simp: updateAttempt_first updateFromCopy_eq split: option.splits)
  next
    case False
    then have a: "0 < a" by simp
    show ?thesis
      using Suc.IH assms
      by (auto simp: updateAttempt_later [OF a] updateFromCopy_eq split: option.splits sum.splits)
  qed
qed

section \<open>The status update of one channel\<close>

text \<open>The first attempt, on the channel given, and then the run of later attempts.\<close>

lemma updateKafkaChannelStatus_unfold:
  "updateKafkaChannelStatus r c p tr =
     (if Status c = markStatus p (Status c) then (Returned None, tr)
      else (case kafkaChannelClient_UpdateStatus r tr (Namespace c) (markedCopy p c) of
              None \<Rightarrow> (Returned None, tr @ [UpdateStatus (Namespace c) (markedCopy p c)])
            | Some e \<Rightarrow>
                if IsConflict e
                then (case RetryErrors 4 (updateAttempt r p) 1 (Some e)
                             (Some c, tr @ [UpdateStatus (Namespace c) (markedCopy p c)]) of
                        (out, oc, tr') \<Rightarrow> (out, tr'))
                else (Returned (Some e), tr @ [UpdateStatus (Namespace c) (markedCopy p c)])))"
proof -
  have five: "RetryErrors DefaultRetrySteps (updateAttempt r p) 0 None (Some c, tr) =
     (case updateAttempt r p 0 (Some c, tr) of
        (Panicked, s') \<Rightarrow> (Panicked, s')
      | (Returned None, s') \<Rightarrow> (Returned None, s')
      | (Returned (Some e), s') \<Rightarrow>
          if IsConflict e then RetryErrors 4 (updateAttempt r p) (0 + 1) (Some e) s'
          else (Returned (Some e), s'))"
    using RetryErrors.simps(2) [of 4 "updateAttempt r p" 0 None "(Some c, tr)"]
    by (simp add: DefaultRetrySteps_def)
  show ?thesis
    unfolding updateKafkaChannelStatus_def RetryUpdateConflicts_def five
    by (simp add: updateAttempt_first updateFromCopy_eq split: option.splits)
qed

text \<open>
  The calls of one \<open>updateKafkaChannelStatus\<close>: nothing when the status is
  unchanged, else the first update and the calls of the later attempts.
\<close>

lemma updateKafkaChannelStatus_calls:
  "\<exists>seg. snd (updateKafkaChannelStatus r c p tr) = tr @ seg
       \<and> (\<forall>x \<in> set seg. isUpdateStatus x \<or> isGet_KafkaChannel x)
       \<and> length (filter isUpdateStatus seg) \<le> DefaultRetrySteps
       \<and> length (filter isGet_KafkaChannel seg) < DefaultRetrySteps
       \<and> (seg = [] \<or> (\<exists>rest. seg = UpdateStatus (Namespace c) (markedCopy p c) # rest
                          \<and> Status c \<noteq> markStatus p (Status c)))"
proof (cases "Status c = markStatus p (Status c)")
  case True
  then show ?thesis by (simp add: updateKafkaChannelStatus_unfold DefaultRetrySteps_def)
next
  case False
  let ?U = "UpdateStatus (Namespace c) (markedCopy p c)"
  let ?resp = "kafkaChannelClient_UpdateStatus r tr (Namespace c) (markedCopy p c)"
  show ?thesis
  proof (cases "\<exists>e. ?resp = Some e \<and> IsConflict e")
    case nc: False
    with False have "snd (updateKafkaChannelStatus r c p tr) = tr @ [?U]"
      by (cases ?resp) (auto simp: updateKafkaChannelStatus_unfold)
    with False show ?thesis by (simp add: DefaultRetrySteps_def)
  next
    case True
    then obtain e where e: "?resp = Some e" "IsConflict e" by blast
    obtain out oc' tr' where run:
      "RetryErrors 4 (updateAttempt r p) 1 (Some e) (Some c, tr @ [?U]) = (out, oc', tr')"
      by (cases "RetryErrors 4 (updateAttempt r p) 1 (Some e) (Some c, tr @ [?U])") auto
    from RetryErrors_later_calls [OF run] obtain seg where seg:
        "tr' = (tr @ [?U]) @ seg"
        "\<forall>x \<in> set seg. isUpdateStatus x \<or> isGet_KafkaChannel x"
        "length (filter isUpdateStatus seg) \<le> 4"
        "length (filter isGet_KafkaChannel seg) \<le> 4"
      by auto
    have t: "snd (updateKafkaChannelStatus r c p tr) = tr @ (?U # seg)"
      using False e run seg(1) by (simp add: updateKafkaChannelStatus_unfold)
    show ?thesis
      by (rule exI [of _ "?U # seg"]) (use t seg(2-4) False in \<open>auto simp: DefaultRetrySteps_def\<close>)
  qed
qed

lemma updateKafkaChannelStatus_reloads:
  assumes "snd (updateKafkaChannelStatus r c p tr) = tr @ pre @ UpdateStatus ns u # post"
  shows "((pre = [] \<and> u = markedCopy p c \<and> ns = Namespace c \<and> Status c \<noteq> Status u)
          \<or> (\<exists>pre' ns' nm' fresh.
                pre = pre' @ [Get_KafkaChannel ns' nm']
              \<and> kafkachannelLister_Get r (tr @ pre') ns' nm' = Inr fresh
              \<and> u = markedCopy p fresh \<and> ns = Namespace fresh
              \<and> Status fresh \<noteq> Status u))
       \<and> (\<forall>e. kafkaChannelClient_UpdateStatus r (tr @ pre) ns u = Some e \<and> IsConflict e
                \<and> length (filter isGet_KafkaChannel pre) + 1 < DefaultRetrySteps
              \<longrightarrow> (\<exists>rest. post = Get_KafkaChannel (Namespace u) (Name u) # rest))"
proof (cases "Status c = markStatus p (Status c)")
  case True
  with assms show ?thesis by (simp add: updateKafkaChannelStatus_unfold)
next
  case False
  let ?U = "UpdateStatus (Namespace c) (markedCopy p c)"
  let ?resp = "kafkaChannelClient_UpdateStatus r tr (Namespace c) (markedCopy p c)"
  have first: "Status c \<noteq> Status (markedCopy p c)"
    using False by (simp add: markedCopy_meta)
  show ?thesis
  proof (cases "\<exists>e. ?resp = Some e \<and> IsConflict e")
    case nc: False
    with False have "snd (updateKafkaChannelStatus r c p tr) = tr @ [?U]"
      by (cases ?resp) (auto simp: updateKafkaChannelStatus_unfold)
    with assms have "[?U] = pre @ UpdateStatus ns u # post" by simp
    then have "pre = []" "UpdateStatus ns u = ?U" "post = []"
      by (auto dest!: Cons_eq_append_Cons_cases)
    with nc first show ?thesis by auto
  next
    case True
    then obtain e where e: "?resp = Some e" "IsConflict e" by blast
    obtain out oc' tr' where run:
      "RetryErrors 4 (updateAttempt r p) 1 (Some e) (Some c, tr @ [?U]) = (out, oc', tr')"
      by (cases "RetryErrors 4 (updateAttempt r p) 1 (Some e) (Some c, tr @ [?U])") auto
    from RetryErrors_later_calls [OF run] obtain seg where seg:
        "tr' = (tr @ [?U]) @ seg"
        "\<exists>rest. seg = Get_KafkaChannel (Namespace c) (Name c) # rest"
      by auto
    have t: "snd (updateKafkaChannelStatus r c p tr) = tr'"
      using False e run by (simp add: updateKafkaChannelStatus_unfold)
    from t seg(1) assms have "?U # seg = pre @ UpdateStatus ns u # post" by simp
    then consider
        (here) "pre = []" "UpdateStatus ns u = ?U" "post = seg"
      | (there) pre2 where "pre = ?U # pre2" "seg = pre2 @ UpdateStatus ns u # post"
      by (auto dest!: Cons_eq_append_Cons_cases)
    then show ?thesis
    proof cases
      case here
      with first seg(2) show ?thesis by (auto simp: markedCopy_meta)
    next
      case there
      from there(2) seg(1) have d: "tr' = (tr @ [?U]) @ pre2 @ UpdateStatus ns u # post"
        by simp
      from RetryErrors_later_reloads [OF run _ d]
      have l: "(\<exists>pre' ns' nm' fr.
            pre2 = pre' @ [Get_KafkaChannel ns' nm']
          \<and> kafkachannelLister_Get r ((tr @ [?U]) @ pre') ns' nm' = Inr fr
          \<and> u = markedCopy p fr \<and> ns = Namespace fr
          \<and> Status fr \<noteq> Status u)"
          "(\<forall>e. kafkaChannelClient_UpdateStatus r ((tr @ [?U]) @ pre2) ns u = Some e \<and> IsConflict e
                \<and> length (filter isGet_KafkaChannel pre2) < 4
              \<longrightarrow> (\<exists>rest. post = Get_KafkaChannel (Namespace u) (Name u) # rest))"
        by simp_all
      from l(1) obtain pre' ns' nm' fr where fr:
            "pre2 = pre' @ [Get_KafkaChannel ns' nm']"
            "kafkachannelLister_Get r ((tr @ [?U]) @ pre') ns' nm' = Inr fr"
            "u = markedCopy p fr" "ns = Namespace fr" "Status fr \<noteq> Status u"
        by blast
      have one: "\<exists>pre'' ns' nm' fr.
            pre = pre'' @ [Get_KafkaChannel ns' nm']
          \<and> kafkachannelLister_Get r (tr @ pre'') ns' nm' = Inr fr
          \<and> u = markedCopy p fr \<and> ns = Namespace fr
          \<and> Status fr \<noteq> Status u"
        by (rule exI [of _ "?U # pre'"]) (use fr there(1) in auto)
      have two: "\<forall>e. kafkaChannelClient_UpdateStatus r (tr @ pre) ns u = Some e \<and> IsConflict e
                \<and> length (filter isGet_KafkaChannel pre) + 1 < DefaultRetrySteps
              \<longrightarrow> (\<exists>rest. post = Get_KafkaChannel (Namespace u) (Name u) # rest)"
        using l(2) there(1) by (simp add: DefaultRetrySteps_def)
      from one two show ?thesis by blast
    qed
  qed
qed

text \<open>
  C2. When the status recomputed on the channel given equals the status it
  holds, \<open>updateKafkaChannelStatus\<close> returns success and issues no call at all.
  The same holds for every attempt, on the channel given or on a reloaded one:
  with an equal status it returns success and appends no call. And every status
  update that \<open>updateKafkaChannelStatus\<close> issues submits the marked copy of a
  channel whose status differs from the recomputed one.
\<close>

theorem C2_write_avoidance:
  "(Status c = markStatus p (Status c) \<longrightarrow>
       updateKafkaChannelStatus r c p tr = (Returned None, tr))
   \<and> (Status c = markStatus p (Status c) \<longrightarrow>
       updateFromCopy r p c tr = (Returned None, Some c, tr))
   \<and> (\<forall>pre ns u post.
         snd (updateKafkaChannelStatus r c p tr) = tr @ pre @ UpdateStatus ns u # post \<longrightarrow>
         (\<exists>copy. u = markedCopy p copy \<and> Status copy \<noteq> markStatus p (Status copy)))"
proof -
  have a: "Status c = markStatus p (Status c) \<longrightarrow>
       updateKafkaChannelStatus r c p tr = (Returned None, tr)"
    by (simp add: updateKafkaChannelStatus_unfold)
  have b: "Status c = markStatus p (Status c) \<longrightarrow>
       updateFromCopy r p c tr = (Returned None, Some c, tr)"
    by (simp add: updateFromCopy_eq)
  have d: "\<exists>copy. u = markedCopy p copy \<and> Status copy \<noteq> markStatus p (Status copy)"
    if "snd (updateKafkaChannelStatus r c p tr) = tr @ pre @ UpdateStatus ns u # post"
    for pre ns u post
    using updateKafkaChannelStatus_reloads [OF that] by (auto simp: markedCopy_meta)
  from a b d show ?thesis by blast
qed

theorem C2_write_avoidance_witness:
  "Status (markedCopy allValid chanA) = markStatus allValid (Status (markedCopy allValid chanA))
   \<and> updateKafkaChannelStatus (cacheReconciler [chanA] 0) (markedCopy allValid chanA) allValid []
       = (Returned None, [])
   \<and> snd (updateKafkaChannelStatus (cacheReconciler [chanA] 0) chanA allValid [])
       = [] @ [] @ UpdateStatus ''ns1'' (markedCopy allValid chanA) # []
   \<and> (\<exists>copy. markedCopy allValid chanA = markedCopy allValid copy
         \<and> Status copy \<noteq> markStatus allValid (Status copy))"
proof -
  have h1: "Status (markedCopy allValid chanA) = markStatus allValid (Status (markedCopy allValid chanA))"
    by code_simp
  have h2: "snd (updateKafkaChannelStatus (cacheReconciler [chanA] 0) chanA allValid [])
       = [] @ [] @ UpdateStatus ''ns1'' (markedCopy allValid chanA) # []"
    by code_simp
  from C2_write_avoidance [of "markedCopy allValid chanA" allValid "cacheReconciler [chanA] 0" "[]"] h1
  have c1: "updateKafkaChannelStatus (cacheReconciler [chanA] 0) (markedCopy allValid chanA) allValid []
       = (Returned None, [])"
    by blast
  from C2_write_avoidance [of chanA allValid "cacheReconciler [chanA] 0" "[]"] h2
  have c2: "\<exists>copy. markedCopy allValid chanA = markedCopy allValid copy
         \<and> Status copy \<noteq> markStatus allValid (Status copy)"
    by blast
  from h1 h2 c1 c2 show ?thesis by blast
qed



section \<open>The fan-out over the channels of a secret\<close>

lemma append_eq_append_Cons_notin:
  "xs @ ys = pre @ x # post \<Longrightarrow> x \<notin> set xs \<Longrightarrow>
     \<exists>pre'. pre = xs @ pre' \<and> ys = pre' @ x # post"
proof (induction xs arbitrary: pre)
  case Nil
  then show ?case by simp
next
  case (Cons a xs)
  from Cons.prems obtain pre2 where p: "pre = a # pre2" "xs @ ys = pre2 @ x # post"
    by (cases pre) auto
  from Cons.IH [OF p(2)] Cons.prems(2) p(1) show ?case by auto
qed

lemma attempted_append: "attempted (xs @ ys) = attempted xs @ attempted ys"
  by (induction xs rule: attempted.induct) auto

lemma attempted_calls:
  "\<forall>x \<in> set seg. isUpdateStatus x \<or> isGet_KafkaChannel x \<Longrightarrow> attempted seg = []"
  by (induction seg rule: attempted.induct) auto

lemma updateKafkaChannelStatus_no_panic:
  assumes "\<forall>t ns nm e. kafkachannelLister_Get r t ns nm = Inl e \<longrightarrow> \<not> IsConflict e"
  shows "fst (updateKafkaChannelStatus r c p tr) \<noteq> Panicked"
proof -
  obtain out oc tr' where run:
    "RetryErrors DefaultRetrySteps (updateAttempt r p) 0 None (Some c, tr) = (out, oc, tr')"
    by (cases "RetryErrors DefaultRetrySteps (updateAttempt r p) 0 None (Some c, tr)") auto
  with RetryErrors_no_panic [OF assms, of DefaultRetrySteps p 0 None c tr]
  show ?thesis
    by (simp add: updateKafkaChannelStatus_def RetryUpdateConflicts_def)
qed

text \<open>
  The fan-out loop, when no reload fails with a conflict error: it ends without
  a panic; it calls \<open>updateKafkaChannelStatus\<close> once for each entry that is not
  nil, in order; its flag is raised exactly when it was raised before or one of
  those calls returned an error; and its store calls are those of these calls.
\<close>

lemma updateAllKafkaChannels_all:
  assumes nc: "\<forall>t ns nm e. kafkachannelLister_Get r t ns nm = Inl e \<longrightarrow> \<not> IsConflict e"
  shows "\<exists>seg. updateAllKafkaChannels r p chans flag tr =
                 (Some (flag \<or> (\<exists>pre c post e. seg = pre @ Call_updateKafkaChannelStatus c # post
                          \<and> fst (updateKafkaChannelStatus r c p
                                   (tr @ pre @ [Call_updateKafkaChannelStatus c])) = Returned (Some e))),
                  tr @ seg)
             \<and> attempted seg = nonNil chans
             \<and> (\<forall>pre ns u post. seg = pre @ UpdateStatus ns u # post \<longrightarrow>
                   (\<exists>copy. u = markedCopy p copy \<and> Status copy \<noteq> markStatus p (Status copy)))"
proof (induction chans arbitrary: flag tr)
  case Nil
  show ?case by simp
next
  case (Cons x chans)
  show ?case
  proof (cases x)
    case None
    with Cons.IH [of flag tr] show ?thesis by simp
  next
    case (Some c)
    let ?C = "Call_updateKafkaChannelStatus c"
    let ?failed = "\<lambda>tr0 seg. \<exists>pre c post e. seg = pre @ Call_updateKafkaChannelStatus c # post
                          \<and> fst (updateKafkaChannelStatus r c p
                                   (tr0 @ pre @ [Call_updateKafkaChannelStatus c])) = Returned (Some e)"
    obtain out tr1 where u: "updateKafkaChannelStatus r c p (tr @ [?C]) = (out, tr1)"
      by (cases "updateKafkaChannelStatus r c p (tr @ [?C])") auto
    from updateKafkaChannelStatus_no_panic [OF nc, of c p "tr @ [?C]"] u
    obtain eo where out: "out = Returned eo" by (cases out) auto
    from updateKafkaChannelStatus_calls [of r c p "tr @ [?C]"] u
    obtain s1 where s1: "tr1 = (tr @ [?C]) @ s1"
        "\<forall>x \<in> set s1. isUpdateStatus x \<or> isGet_KafkaChannel x"
      by auto
    have s1C: "\<And>c'. Call_updateKafkaChannelStatus c' \<notin> set s1"
      using s1(2) by auto
    define flag1 where "flag1 = (flag \<or> eo \<noteq> None)"
    from Cons.IH [of flag1 tr1] obtain seg2 where seg2:
      "updateAllKafkaChannels r p chans flag1 tr1 = (Some (flag1 \<or> ?failed tr1 seg2), tr1 @ seg2)"
      "attempted seg2 = nonNil chans"
      "\<forall>pre ns u post. seg2 = pre @ UpdateStatus ns u # post \<longrightarrow>
                   (\<exists>copy. u = markedCopy p copy \<and> Status copy \<noteq> markStatus p (Status copy))"
      by blast
    define seg where "seg = ?C # s1 @ seg2"
    have run: "updateAllKafkaChannels r p (x # chans) flag tr =
                 (Some (flag1 \<or> ?failed tr1 seg2), tr @ seg)"
      using Some u out seg2(1) s1(1)
      by (cases eo) (auto simp: flag1_def seg_def)
    have att: "attempted seg = nonNil (x # chans)"
      using Some seg2(2) attempted_calls [OF s1(2)] by (simp add: seg_def attempted_append)
    have fl: "(flag1 \<or> ?failed tr1 seg2) = (flag \<or> ?failed tr seg)"
    proof
      assume "flag1 \<or> ?failed tr1 seg2"
      then consider (a) flag | (b) "eo \<noteq> None" | (c) "?failed tr1 seg2"
        by (auto simp: flag1_def)
      then show "flag \<or> ?failed tr seg"
      proof cases
        case a
        then show ?thesis by simp
      next
        case b
        then obtain e where "eo = Some e" by auto
        with u out have "seg = [] @ ?C # (s1 @ seg2)
            \<and> fst (updateKafkaChannelStatus r c p (tr @ [] @ [?C])) = Returned (Some e)"
          by (simp add: seg_def)
        then show ?thesis by blast
      next
        case c
        then obtain pre c' post e where f: "seg2 = pre @ Call_updateKafkaChannelStatus c' # post"
           "fst (updateKafkaChannelStatus r c' p (tr1 @ pre @ [Call_updateKafkaChannelStatus c'])) = Returned (Some e)"
          by blast
        have "seg = (?C # s1 @ pre) @ Call_updateKafkaChannelStatus c' # post
            \<and> fst (updateKafkaChannelStatus r c' p (tr @ (?C # s1 @ pre) @ [Call_updateKafkaChannelStatus c']))
                = Returned (Some e)"
          using f s1(1) by (simp add: seg_def)
        then show ?thesis by blast
      qed
    next
      assume "flag \<or> ?failed tr seg"
      then consider (a) flag | (b) "?failed tr seg" by blast
      then show "flag1 \<or> ?failed tr1 seg2"
      proof cases
        case a
        then show ?thesis by (simp add: flag1_def)
      next
        case b
        then obtain pre c' post e where f: "seg = pre @ Call_updateKafkaChannelStatus c' # post"
           "fst (updateKafkaChannelStatus r c' p (tr @ pre @ [Call_updateKafkaChannelStatus c'])) = Returned (Some e)"
          by blast
        from f(1) have "?C # (s1 @ seg2) = pre @ Call_updateKafkaChannelStatus c' # post"
          by (simp add: seg_def)
        then consider
            (here) "pre = []" "c' = c"
          | (there) pre2 where "pre = ?C # pre2" "s1 @ seg2 = pre2 @ Call_updateKafkaChannelStatus c' # post"
          by (auto dest!: Cons_eq_append_Cons_cases)
        then show ?thesis
        proof cases
          case here
          with f(2) u out have "eo = Some e" by simp
          then show ?thesis by (simp add: flag1_def)
        next
          case there
          from append_eq_append_Cons_notin [OF there(2) s1C]
          obtain pre3 where p3: "pre2 = s1 @ pre3" "seg2 = pre3 @ Call_updateKafkaChannelStatus c' # post"
            by blast
          have "tr @ pre @ [Call_updateKafkaChannelStatus c'] = tr1 @ pre3 @ [Call_updateKafkaChannelStatus c']"
            using there(1) p3(1) s1(1) by simp
          with f(2) p3(2) have "?failed tr1 seg2" by auto
          then show ?thesis by simp
        qed
      qed
    qed
    have upd: "\<exists>copy. u = markedCopy p copy \<and> Status copy \<noteq> markStatus p (Status copy)"
      if d: "seg = pre @ UpdateStatus ns u # post" for pre ns u post
    proof -
      from d have "?C # (s1 @ seg2) = pre @ UpdateStatus ns u # post"
        by (simp add: seg_def)
      then obtain pre2 where p2: "pre = ?C # pre2" "s1 @ seg2 = pre2 @ UpdateStatus ns u # post"
        by (auto dest!: Cons_eq_append_Cons_cases)
      show ?thesis
      proof (cases "UpdateStatus ns u \<in> set s1")
        case True
        then obtain a b where ab: "s1 = a @ UpdateStatus ns u # b"
          by (auto simp: in_set_conv_decomp)
        with s1(1) u have "snd (updateKafkaChannelStatus r c p (tr @ [?C])) =
             (tr @ [?C]) @ a @ UpdateStatus ns u # b"
          by simp
        from updateKafkaChannelStatus_reloads [OF this] show ?thesis
          by (auto simp: markedCopy_meta)
      next
        case False
        from append_eq_append_Cons_notin [OF p2(2) False]
        obtain pre3 where "seg2 = pre3 @ UpdateStatus ns u # post" by blast
        with seg2(3) show ?thesis by blast
      qed
    qed
    have run': "updateAllKafkaChannels r p (x # chans) flag tr =
                 (Some (flag \<or> ?failed tr seg), tr @ seg)"
      using run fl by simp
    show ?thesis
    proof (intro exI [of _ seg] conjI allI impI)
      show "updateAllKafkaChannels r p (x # chans) flag tr =
                 (Some (flag \<or> (\<exists>pre c post e. seg = pre @ Call_updateKafkaChannelStatus c # post
                          \<and> fst (updateKafkaChannelStatus r c p
                                   (tr @ pre @ [Call_updateKafkaChannelStatus c])) = Returned (Some e))),
                  tr @ seg)"
        using run' .
      show "attempted seg = nonNil (x # chans)" using att .
      show "\<exists>copy. u = markedCopy p copy \<and> Status copy \<noteq> markStatus p (Status copy)"
        if "seg = pre @ UpdateStatus ns u # post" for pre ns u post
        using upd [OF that] .
    qed
  qed
qed

text \<open>
  C8. When the listing succeeds and no reload fails with a conflict error, the
  fan-out calls \<open>updateKafkaChannelStatus\<close> once for every listed channel
  (every entry of the list that is not nil), in the order of the list, whatever
  the earlier calls returned; it returns the one error "failed to update Status
  of one or more KafkaChannels" exactly when one of those calls returned an
  error, and no error otherwise; and every status update in its trace submits
  the marked copy of a channel, so none undoes an update that succeeded.
\<close>

theorem C8_fan_out_continues:
  assumes "\<forall>t ns nm e. kafkachannelLister_Get r t ns nm = Inl e \<longrightarrow> \<not> IsConflict e"
      and "RequirementInvalid k (KafkaSecretLabel k) Equals [Name secret] = None"
      and "kafkachannelLister_List r tr NewSelector = Inr chans"
  shows "\<exists>seg. reconcileKafkaChannelStatus k r secret p tr =
               (Returned
                  (if \<exists>pre c post e. seg = pre @ Call_updateKafkaChannelStatus c # post
                        \<and> fst (updateKafkaChannelStatus r c p
                                 ((tr @ [List_KafkaChannels NewSelector]) @ pre
                                    @ [Call_updateKafkaChannelStatus c])) = Returned (Some e)
                   then Some (Errorf ''failed to update Status of one or more KafkaChannels'')
                   else None),
                (tr @ [List_KafkaChannels NewSelector]) @ seg)
           \<and> attempted seg = nonNil chans
           \<and> (\<forall>pre ns u post. seg = pre @ UpdateStatus ns u # post \<longrightarrow>
                  (\<exists>copy. u = markedCopy p copy \<and> Status copy \<noteq> markStatus p (Status copy)))"
proof -
  from updateAllKafkaChannels_all [OF assms(1), of p chans False "tr @ [List_KafkaChannels NewSelector]"]
  obtain seg where seg:
    "updateAllKafkaChannels r p chans False (tr @ [List_KafkaChannels NewSelector]) =
                 (Some (False \<or> (\<exists>pre c post e. seg = pre @ Call_updateKafkaChannelStatus c # post
                          \<and> fst (updateKafkaChannelStatus r c p
                                   ((tr @ [List_KafkaChannels NewSelector]) @ pre
                                      @ [Call_updateKafkaChannelStatus c])) = Returned (Some e))),
                  (tr @ [List_KafkaChannels NewSelector]) @ seg)"
    "attempted seg = nonNil chans"
    "\<forall>pre ns u post. seg = pre @ UpdateStatus ns u # post \<longrightarrow>
                   (\<exists>copy. u = markedCopy p copy \<and> Status copy \<noteq> markStatus p (Status copy))"
    by blast
  have "reconcileKafkaChannelStatus k r secret p tr =
               (Returned
                  (if \<exists>pre c post e. seg = pre @ Call_updateKafkaChannelStatus c # post
                        \<and> fst (updateKafkaChannelStatus r c p
                                 ((tr @ [List_KafkaChannels NewSelector]) @ pre
                                    @ [Call_updateKafkaChannelStatus c])) = Returned (Some e)
                   then Some (Errorf ''failed to update Status of one or more KafkaChannels'')
                   else None),
                (tr @ [List_KafkaChannels NewSelector]) @ seg)"
    using assms(2,3) seg(1)
    by (simp add: reconcileKafkaChannelStatus_def NewRequirement_def Let_def)
  with seg(2,3) show ?thesis by blast
qed

theorem C8_fan_out_continues_witness:
  "fst (updateKafkaChannelStatus (cacheReconciler [chanA, chanB] 5) chanA allValid
          [List_KafkaChannels NewSelector, Call_updateKafkaChannelStatus chanA])
     = Returned (Some (StatusConflict ''the object has been modified''))
   \<and> (\<exists>seg. snd (reconcileKafkaChannelStatus scenario_decls (cacheReconciler [chanA, chanB] 5)
                     secretA allValid [])
              = ([] @ [List_KafkaChannels NewSelector]) @ seg
            \<and> attempted seg = [chanA, chanB])
   \<and> fst (reconcileKafkaChannelStatus scenario_decls (cacheReconciler [chanA, chanB] 5)
                     secretA allValid [])
       = Returned (Some (Errorf ''failed to update Status of one or more KafkaChannels''))"
proof -
  let ?r = "cacheReconciler [chanA, chanB] 5"
  have nc: "\<forall>t ns nm e. kafkachannelLister_Get ?r t ns nm = Inl e \<longrightarrow> \<not> IsConflict e"
    by (auto simp: cacheReconciler_def cacheLister_Get_def split: option.splits)
  have req: "RequirementInvalid scenario_decls (KafkaSecretLabel scenario_decls) Equals [Name secretA] = None"
    by (simp add: scenario_decls_def)
  have lst: "kafkachannelLister_List ?r [] NewSelector = Inr [Some chanA, Some chanB]"
    by code_simp
  have f: "fst (updateKafkaChannelStatus ?r chanA allValid
          [List_KafkaChannels NewSelector, Call_updateKafkaChannelStatus chanA])
     = Returned (Some (StatusConflict ''the object has been modified''))"
    by code_simp
  have e: "fst (reconcileKafkaChannelStatus scenario_decls ?r secretA allValid [])
       = Returned (Some (Errorf ''failed to update Status of one or more KafkaChannels''))"
    by code_simp
  from C8_fan_out_continues [OF nc req lst, of allValid] obtain seg where
    "snd (reconcileKafkaChannelStatus scenario_decls ?r secretA allValid [])
              = ([] @ [List_KafkaChannels NewSelector]) @ seg"
    "attempted seg = nonNil [Some chanA, Some chanB]"
    by auto
  then have "\<exists>seg. snd (reconcileKafkaChannelStatus scenario_decls ?r secretA allValid [])
              = ([] @ [List_KafkaChannels NewSelector]) @ seg
            \<and> attempted seg = [chanA, chanB]"
    by auto
  with f e show ?thesis by blast
qed

text \<open>
  C1, on the code. The secret is \<open>kafka-secret-ns1-chan-a\<close>; the lister's cache
  holds \<open>chan-a\<close>, labelled with that secret, and \<open>chan-b\<close>, labelled with
  another one. The selector with the requirement would not match \<open>chan-b\<close>, but
  the selector given to the lister is the empty one, both channels are listed,
  and the status of both is updated.
\<close>

theorem C1_lists_every_channel:
  "Name secretA = ''kafka-secret-ns1-chan-a''
   \<and> map_of (Labels chanA) (KafkaSecretLabel scenario_decls) = Some ''kafka-secret-ns1-chan-a''
   \<and> map_of (Labels chanB) (KafkaSecretLabel scenario_decls) = Some ''other-secret''
   \<and> NewRequirement scenario_decls (KafkaSecretLabel scenario_decls) Equals [Name secretA]
       = Inr \<lparr>key = ''kafkasecret'', operator = Equals, strValues = [''kafka-secret-ns1-chan-a'']\<rparr>
   \<and> \<not> Matches (Add NewSelector
                  [\<lparr>key = ''kafkasecret'', operator = Equals, strValues = [''kafka-secret-ns1-chan-a'']\<rparr>])
               (Labels chanB)
   \<and> reconcileKafkaChannelStatus scenario_decls (cacheReconciler [chanA, chanB] 0) secretA allValid []
       = (Returned None,
          [List_KafkaChannels [],
           Call_updateKafkaChannelStatus chanA, UpdateStatus ''ns1'' (markedCopy allValid chanA),
           Call_updateKafkaChannelStatus chanB, UpdateStatus ''ns2'' (markedCopy allValid chanB)])"
  by code_simp

section \<open>A channel without a secret\<close>

text \<open>
  C4, as amended. When the secret name resolved for the channel's topic is
  empty, building the environment and building the deployment both fail with
  the error "invalid kafkaSecret for topic" and return nothing else. The
  reconciliation of the deployment then issues no create call, and when the
  deployment was not found, so that it is built, it returns that error and the
  channel's Dispatcher condition is False with the reason
  DispatcherDeploymentReconciliationFailed. In the whole reconciliation of the
  dispatcher no create call for a deployment is issued: the only create call
  that can occur is the one for the dispatcher service, which is reconciled
  first and does not depend on the secret.
\<close>

theorem C4_empty_secret_name:
  assumes "adminClient_GetKafkaSecretName r (TopicName k channel) = []"
  shows "dispatcherDeploymentEnvVars k r channel =
           Inl (Errorf (''invalid kafkaSecret for topic '' @ [char_of (39::nat)]
                        @ TopicName k channel @ [char_of (39::nat)]))
       \<and> newDispatcherDeployment k r channel =
           Inl (Errorf (''invalid kafkaSecret for topic '' @ [char_of (39::nat)]
                        @ TopicName k channel @ [char_of (39::nat)]))
       \<and> (\<exists>seg. snd (snd (reconcileDispatcherDeployment k r channel tr)) = tr @ seg
                \<and> filter isCreate seg = [])
       \<and> (\<forall>e. deploymentLister_Get r tr (KnativeEventingNamespace k) (DispatcherDnsSafeName k channel) = Inl e
              \<and> IsNotFound e \<longrightarrow>
              fst (reconcileDispatcherDeployment k r channel tr) =
                Some (Errorf (''invalid kafkaSecret for topic '' @ [char_of (39::nat)]
                              @ TopicName k channel @ [char_of (39::nat)]))
            \<and> cStatus (DispatcherCondition (Status (fst (snd (reconcileDispatcherDeployment k r channel tr)))))
                = ConditionFalse
            \<and> Reason (DispatcherCondition (Status (fst (snd (reconcileDispatcherDeployment k r channel tr)))))
                = ''DispatcherDeploymentReconciliationFailed'')
       \<and> (\<exists>seg. snd (snd (reconcileDispatcher k r channel tr)) = tr @ seg
                \<and> filter isCreate_Deployment seg = []
                \<and> (\<forall>a \<in> set seg. isCreate a \<longrightarrow>
                      a = Create_Service (KnativeEventingNamespace k) (newDispatcherService k r channel)))"
proof -
  have e: "dispatcherDeploymentEnvVars k r channel =
           Inl (Errorf (''invalid kafkaSecret for topic '' @ [char_of (39::nat)]
                        @ TopicName k channel @ [char_of (39::nat)]))"
    using assms by (simp add: dispatcherDeploymentEnvVars_def Let_def)
  have n: "newDispatcherDeployment k r channel =
           Inl (Errorf (''invalid kafkaSecret for topic '' @ [char_of (39::nat)]
                        @ TopicName k channel @ [char_of (39::nat)]))"
    by (simp add: newDispatcherDeployment_def Let_def e)
  have t: "snd (snd (reconcileDispatcherDeployment k r channel tr0)) =
           tr0 @ [Get_Deployment (KnativeEventingNamespace k) (DispatcherDnsSafeName k channel)]"
    for tr0
    by (simp add: reconcileDispatcherDeployment_def getDispatcherDeployment_def Let_def n
             split: sum.splits)
  have f: "\<forall>e. deploymentLister_Get r tr (KnativeEventingNamespace k) (DispatcherDnsSafeName k channel) = Inl e
              \<and> IsNotFound e \<longrightarrow>
              fst (reconcileDispatcherDeployment k r channel tr) =
                Some (Errorf (''invalid kafkaSecret for topic '' @ [char_of (39::nat)]
                              @ TopicName k channel @ [char_of (39::nat)]))
            \<and> cStatus (DispatcherCondition (Status (fst (snd (reconcileDispatcherDeployment k r channel tr)))))
                = ConditionFalse
            \<and> Reason (DispatcherCondition (Status (fst (snd (reconcileDispatcherDeployment k r channel tr)))))
                = ''DispatcherDeploymentReconciliationFailed''"
    by (simp add: reconcileDispatcherDeployment_def getDispatcherDeployment_def Let_def n
                  MarkDispatcherFailed_def)
  from t [of tr] have c: "\<exists>seg. snd (snd (reconcileDispatcherDeployment k r channel tr)) = tr @ seg
                \<and> filter isCreate seg = []"
    by simp
  define sv where "sv = reconcileDispatcherService k r channel tr"
  define tr2 where "tr2 = (case fst sv of
                   Some e \<Rightarrow> snd (snd sv) @ [Eventf channel ''Warning''
                                 ''DispatcherServiceReconciliationFailed''
                                 (''Failed To Reconcile Dispatcher Service: '' @ Error e)]
                 | None \<Rightarrow> snd (snd sv))"
  define dp where "dp = reconcileDispatcherDeployment k r channel tr2"
  define ok where "ok = (\<lambda>a. \<not> isCreate_Deployment a
        \<and> (isCreate a \<longrightarrow>
              a = Create_Service (KnativeEventingNamespace k) (newDispatcherService k r channel)))"
  obtain s1 where s1: "snd (snd sv) =
      tr @ Get_Service (KnativeEventingNamespace k) (DispatcherDnsSafeName k channel) # s1"
      "s1 = [] \<or> s1 = [Create_Service (KnativeEventingNamespace k) (newDispatcherService k r channel)]"
    using reconcileDispatcherService_trace [of k r channel tr] sv_def by auto
  have ok1: "\<forall>a \<in> set (Get_Service (KnativeEventingNamespace k) (DispatcherDnsSafeName k channel) # s1). ok a"
    using s1(2) by (auto simp: ok_def)
  obtain m where m: "tr2 = snd (snd sv) @ m" "\<forall>a \<in> set m. ok a"
    by (cases "fst sv") (auto simp: tr2_def ok_def)
  have s2: "snd (snd dp) =
      tr2 @ [Get_Deployment (KnativeEventingNamespace k) (DispatcherDnsSafeName k channel)]"
    using t [of tr2] by (simp add: dp_def)
  obtain ev where ev: "snd (snd (reconcileDispatcher k r channel tr)) = snd (snd dp) @ ev"
      "\<forall>a \<in> set ev. ok a"
    by (cases "fst dp")
       (auto simp: reconcileDispatcher_unfold Let_def sv_def [symmetric] tr2_def [symmetric]
                   dp_def [symmetric] ok_def)
  define seg where "seg = Get_Service (KnativeEventingNamespace k) (DispatcherDnsSafeName k channel) # s1 @ m
       @ Get_Deployment (KnativeEventingNamespace k) (DispatcherDnsSafeName k channel) # ev"
  have tseg: "snd (snd (reconcileDispatcher k r channel tr)) = tr @ seg"
    by (simp add: seg_def ev(1) s2 m(1) s1(1))
  have okseg: "\<forall>a \<in> set seg. ok a"
    using ok1 m(2) ev(2) by (auto simp: seg_def ok_def)
  have nd: "filter isCreate_Deployment seg = []"
    using okseg by (auto simp: ok_def filter_empty_conv)
  have os: "\<forall>a \<in> set seg. isCreate a \<longrightarrow>
                      a = Create_Service (KnativeEventingNamespace k) (newDispatcherService k r channel)"
    using okseg by (auto simp: ok_def)
  from tseg nd os have g: "\<exists>seg. snd (snd (reconcileDispatcher k r channel tr)) = tr @ seg
                \<and> filter isCreate_Deployment seg = []
                \<and> (\<forall>a \<in> set seg. isCreate a \<longrightarrow>
                      a = Create_Service (KnativeEventingNamespace k) (newDispatcherService k r channel))"
    by blast
  from e n c f g show ?thesis by simp
qed

theorem C4_empty_secret_name_witness:
  "adminClient_GetKafkaSecretName
       (fixedReconciler (Inl (StatusNotFound ''not found'')) (Inl (StatusNotFound ''not found'')) [])
       (TopicName scenario_decls chanA) = []
   \<and> deploymentLister_Get
       (fixedReconciler (Inl (StatusNotFound ''not found'')) (Inl (StatusNotFound ''not found'')) []) []
       (KnativeEventingNamespace scenario_decls) (DispatcherDnsSafeName scenario_decls chanA)
       = Inl (StatusNotFound ''not found'')
   \<and> IsNotFound (StatusNotFound ''not found'')
   \<and> (\<exists>seg. snd (snd (reconcileDispatcherDeployment scenario_decls
         (fixedReconciler (Inl (StatusNotFound ''not found'')) (Inl (StatusNotFound ''not found'')) [])
         chanA [])) = [] @ seg
         \<and> filter isCreate seg = [])
   \<and> cStatus (DispatcherCondition (Status (fst (snd (reconcileDispatcherDeployment scenario_decls
         (fixedReconciler (Inl (StatusNotFound ''not found'')) (Inl (StatusNotFound ''not found'')) [])
         chanA [])))))
       = ConditionFalse
   \<and> (\<exists>seg. snd (snd (reconcileDispatcher scenario_decls
         (fixedReconciler (Inl (StatusNotFound ''not found'')) (Inl (StatusNotFound ''not found'')) [])
         chanA [])) = [] @ seg
         \<and> filter isCreate_Deployment seg = []
         \<and> filter isCreate seg \<noteq> [])"
proof -
  let ?r = "fixedReconciler (Inl (StatusNotFound ''not found'')) (Inl (StatusNotFound ''not found'')) []"
  have h: "adminClient_GetKafkaSecretName ?r (TopicName scenario_decls chanA) = []"
    by (simp add: fixedReconciler_def)
  have g: "deploymentLister_Get ?r []
       (KnativeEventingNamespace scenario_decls) (DispatcherDnsSafeName scenario_decls chanA)
       = Inl (StatusNotFound ''not found'')"
    by (simp add: fixedReconciler_def)
  have cr: "filter isCreate (snd (snd (reconcileDispatcher scenario_decls ?r chanA []))) \<noteq> []"
    by (simp add: reconcileDispatcher_unfold reconcileDispatcherService_cases
                  reconcileDispatcherDeployment_def getDispatcherDeployment_def
                  newDispatcherDeployment_def dispatcherDeploymentEnvVars_def Let_def
                  fixedReconciler_def)
  from C4_empty_secret_name [OF h, of "[]"] obtain seg where seg:
      "snd (snd (reconcileDispatcher scenario_decls ?r chanA [])) = [] @ seg"
      "filter isCreate_Deployment seg = []"
    by blast
  from seg cr have eng: "\<exists>seg. snd (snd (reconcileDispatcher scenario_decls ?r chanA [])) = [] @ seg
         \<and> filter isCreate_Deployment seg = []
         \<and> filter isCreate seg \<noteq> []"
    by auto
  from C4_empty_secret_name [OF h, of "[]"] g h
  have dep: "(\<exists>seg. snd (snd (reconcileDispatcherDeployment scenario_decls ?r chanA [])) = [] @ seg
         \<and> filter isCreate seg = [])
     \<and> cStatus (DispatcherCondition (Status (fst (snd (reconcileDispatcherDeployment scenario_decls
         ?r chanA []))))) = ConditionFalse"
    by simp
  from h g eng dep show ?thesis by simp
qed

text \<open>
  The claim C4 as it is written fails for the whole reconciliation of the
  dispatcher: the resolved secret name is empty and neither the service nor the
  deployment exists; the service is reconciled first and is created, so a
  create call is issued to the object store, before building the deployment
  fails.
\<close>

theorem C4_counterexample:
  "adminClient_GetKafkaSecretName
       (fixedReconciler (Inl (StatusNotFound ''not found'')) (Inl (StatusNotFound ''not found'')) [])
       (TopicName scenario_decls chanA) = []
   \<and> newDispatcherDeployment scenario_decls
       (fixedReconciler (Inl (StatusNotFound ''not found'')) (Inl (StatusNotFound ''not found'')) [])
       chanA
       = Inl (Errorf (''invalid kafkaSecret for topic '' @ [char_of (39::nat)] @ ''ns1.chan-a''
                      @ [char_of (39::nat)]))
   \<and> filter isCreate (snd (snd (reconcileDispatcher scenario_decls
       (fixedReconciler (Inl (StatusNotFound ''not found'')) (Inl (StatusNotFound ''not found'')) [])
       chanA [])))
       = [Create_Service ''knative-eventing''
            (newDispatcherService scenario_decls
               (fixedReconciler (Inl (StatusNotFound ''not found'')) (Inl (StatusNotFound ''not found'')) [])
               chanA)]
   \<and> filter isCreate (snd (snd (reconcileDispatcher scenario_decls
       (fixedReconciler (Inl (StatusNotFound ''not found'')) (Inl (StatusNotFound ''not found'')) [])
       chanA []))) \<noteq> []"
  by (simp add: reconcileDispatcher_unfold reconcileDispatcherService_cases
                reconcileDispatcherDeployment_def getDispatcherDeployment_def
                newDispatcherDeployment_def dispatcherDeploymentEnvVars_def Let_def
                fixedReconciler_def scenario_decls_def chanA_def)

end
